theory Spec2Isabelle
  imports Main
begin

section \<open>Go values used by both programs\<close>

text \<open>
  A Go \<open>error\<close> is a value; the three ways the sources build one are kept apart:
  \<open>errors.New(msg)\<close>, \<open>fmt.Errorf("msg: %w", err)\<close> (the description before the colon
  and the wrapped error) and \<open>api.StatusErrorf(code, msg)\<close> (an HTTP status and a message).
\<close>

datatype goerr =
    ErrorNew string
  | Errorf string goerr
  | StatusErrorf nat string

fun Error_text :: "goerr \<Rightarrow> string" where
  "Error_text (ErrorNew m) = m"
| "Error_text (Errorf m e) = m @ '': '' @ Error_text e"
| "Error_text (StatusErrorf code m) = m"

text \<open>
  What a call does: it returns a value, returns a non-nil \<open>error\<close>, or panics
  (a nil pointer dereference, an index out of range). A function whose only result is an
  \<open>error\<close> returns \<open>Value ()\<close> for \<open>nil\<close>.
\<close>

datatype 'a result = Value 'a | Failure goerr | Panic

definition StatusBadRequest :: nat where "StatusBadRequest = 400"
definition StatusForbidden :: nat where "StatusForbidden = 403"
definition StatusNotFound :: nat where "StatusNotFound = 404"

section \<open>cmd/incusd/migrate.go: the migration session\<close>

subsection \<open>The websocket and the connection entry\<close>

datatype proto = MigrationControl bool string | MigrationHeader string

datatype frame = BinaryMessage proto | CloseMessage nat string

text \<open>
  A \<open>*websocket.Conn\<close> (gorilla, an external library): the frames written to the peer, oldest
  first, the frames the peer has sent and that are still to be read, and whether the
  underlying network connection is open. A write on a closed connection returns an error and
  writes nothing. Write deadlines (\<open>SetWriteDeadline\<close>) are real time and are left out.
\<close>

record wsConn =
  written :: "frame list"
  unread :: "frame list"
  netOpen :: bool

definition WriteMessage :: "wsConn \<Rightarrow> frame \<Rightarrow> goerr option \<times> wsConn" where
  "WriteMessage ws f =
     (if netOpen ws then (None, ws\<lparr>written := written ws @ [f]\<rparr>)
      else (Some (ErrorNew ''use of closed network connection''), ws))"

definition CloseNormalClosure :: nat where "CloseNormalClosure = 1000"

text \<open>
  Modelled from the spec: \<open>migration.ProtoSend\<close>, \<open>migration.ProtoRecv\<close> and
  \<open>migration.ProtoSendControl\<close> (package internal/migration) are not part of the sources.
  The spec's \<open>send\<close> "serializes and writes one framed message", its \<open>receive\<close> is a "read of
  one framed message, deserialized into the caller-provided structure", and the terminal
  status is a "message encoding success or a described failure". A read with nothing left
  to read stands for the peer having closed the stream; the wait for a frame is not modelled.
\<close>

definition ProtoSend :: "wsConn \<Rightarrow> proto \<Rightarrow> goerr option \<times> wsConn" where
  "ProtoSend ws m = WriteMessage ws (BinaryMessage m)"

definition ProtoRecv :: "wsConn \<Rightarrow> proto result \<times> wsConn" where
  "ProtoRecv ws =
     (case unread ws of
        [] \<Rightarrow> (Failure (ErrorNew ''unexpected EOF''), ws)
      | BinaryMessage m # fs \<Rightarrow> (Value m, ws\<lparr>unread := fs\<rparr>)
      | CloseMessage code txt # fs \<Rightarrow>
          (Failure (ErrorNew ''Only binary messages allowed''), ws\<lparr>unread := fs\<rparr>))"

definition status_message :: "goerr option \<Rightarrow> proto" where
  "status_message err =
     (case err of
        None \<Rightarrow> MigrationControl True []
      | Some e \<Rightarrow> MigrationControl False (Error_text e))"

definition ProtoSendControl :: "wsConn \<Rightarrow> goerr option \<Rightarrow> wsConn" where
  "ProtoSendControl ws err = snd (ProtoSend ws (status_message err))"

text \<open>
  Modelled from the spec: the type \<open>migrationConn\<close> and its methods \<open>Secret\<close>, \<open>WebSocket\<close>,
  \<open>AcceptIncoming\<close> and \<open>Close\<close> are not part of the sources. The spec's Connection Set holds,
  per name, an entry that is \<^emph>\<open>pending\<close> ("secret issued, stream not yet attached"),
  \<^emph>\<open>established\<close> ("stream attached and upgraded") or \<^emph>\<open>closed\<close>, and "once closed an entry is
  never reopened". An entry yields a usable websocket only while it is established; the
  wait of \<open>WebSocket\<close> on its context is not modelled.
\<close>

record migrationConn =
  secret :: string
  conn :: "wsConn option"
  disconnected :: bool

definition Secret :: "migrationConn \<Rightarrow> string" where
  "Secret mc = secret mc"

definition WebSocket :: "migrationConn \<Rightarrow> goerr + wsConn" where
  "WebSocket mc =
     (if disconnected mc then Inl (ErrorNew ''Connection already disconnected'')
      else case conn mc of
             None \<Rightarrow> Inl (ErrorNew ''Connection not established'')
           | Some ws \<Rightarrow> Inr ws)"

definition Close :: "migrationConn \<Rightarrow> migrationConn" where
  "Close mc =
     mc\<lparr>conn := map_option (\<lambda>ws. ws\<lparr>netOpen := False\<rparr>) (conn mc), disconnected := True\<rparr>"

text \<open>
  An incoming HTTP request: its form values, and what upgrading it to a websocket gives
  (a request that is no websocket handshake cannot be upgraded).
\<close>

record request =
  form :: "(string \<times> string) list"
  upgrade :: "goerr + wsConn"

definition FormValue :: "request \<Rightarrow> string \<Rightarrow> string" where
  "FormValue r key = (case map_of (form r) key of None \<Rightarrow> [] | Some v \<Rightarrow> v)"

definition AcceptIncoming :: "migrationConn \<Rightarrow> request \<Rightarrow> goerr + migrationConn" where
  "AcceptIncoming mc r =
     (if disconnected mc then Inl (ErrorNew ''Connection already disconnected'')
      else case upgrade r of
             Inl err \<Rightarrow> Inl (Errorf ''Failed upgrading incoming request to websocket'' err)
           | Inr ws \<Rightarrow> Inr (mc\<lparr>conn := Some ws\<rparr>))"

subsection \<open>migrationFields and its methods\<close>

text \<open>
  \<open>conns map[string]*migrationConn\<close> is an association list: its order is the order in which
  one \<open>range\<close> over the map visits the entries, which Go leaves open, so a statement about
  every list is a statement about every iteration order. \<open>controlLock\<close> is a mutex; the model
  runs one goroutine, where \<open>Lock\<close> and \<open>Unlock\<close> have no effect, and leaves it out, as it
  does the \<open>instance\<close> handle.
\<close>

record migrationFields =
  conns :: "(string \<times> migrationConn) list"
  live :: bool
  instanceOnly :: bool
  volumeOnly :: bool
  allowInconsistent :: bool
  storagePool :: string

definition SecretNameControl :: string where
  "SecretNameControl = ''control''"

text \<open>
  A write through the \<open>*websocket.Conn\<close> of the control entry changes the websocket that the
  entry points to.
\<close>

definition control_ws_update ::
  "wsConn \<Rightarrow> 'a migrationFields_scheme \<Rightarrow> 'a migrationFields_scheme" where
  "control_ws_update ws c =
     c\<lparr>conns := map (\<lambda>(name, mc). if name = SecretNameControl then (name, mc\<lparr>conn := Some ws\<rparr>)
                                     else (name, mc)) (conns c)\<rparr>"

text \<open>
  \<open>c.conns[api.SecretNameControl]\<close> is \<open>nil\<close> when the map has no such key, and a method that
  reads its receiver then panics.
\<close>

definition send :: "'a migrationFields_scheme \<Rightarrow> proto \<Rightarrow> unit result \<times> 'a migrationFields_scheme" where
  "send c m =
     (case map_of (conns c) SecretNameControl of
        None \<Rightarrow> (Panic, c)
      | Some mc \<Rightarrow>
          (case WebSocket mc of
             Inl err \<Rightarrow> (Failure (Errorf ''Control connection not initialized'' err), c)
           | Inr ws \<Rightarrow>
               (case ProtoSend ws m of
                  (Some err, ws') \<Rightarrow> (Failure err, control_ws_update ws' c)
                | (None, ws') \<Rightarrow> (Value (), control_ws_update ws' c))))"

definition recv :: "'a migrationFields_scheme \<Rightarrow> proto result \<times> 'a migrationFields_scheme" where
  "recv c =
     (case map_of (conns c) SecretNameControl of
        None \<Rightarrow> (Panic, c)
      | Some mc \<Rightarrow>
          (case WebSocket mc of
             Inl err \<Rightarrow> (Failure (Errorf ''Control connection not initialized'' err), c)
           | Inr ws \<Rightarrow>
               (case ProtoRecv ws of (res, ws') \<Rightarrow> (res, control_ws_update ws' c))))"

text \<open>The loop \<open>for _, conn := range c.conns { conn.Close() }\<close>.\<close>

definition Close_range :: "(string \<times> migrationConn) list \<Rightarrow> (string \<times> migrationConn) list" where
  "Close_range cs = map (\<lambda>(name, mc). (name, Close mc)) cs"

definition disconnect :: "'a migrationFields_scheme \<Rightarrow> unit result \<times> 'a migrationFields_scheme" where
  "disconnect c =
     (case map_of (conns c) SecretNameControl of
        None \<Rightarrow> (Panic, c)
      | Some mc \<Rightarrow>
          (let c1 = (case WebSocket mc of
                       Inr ws \<Rightarrow>
                         control_ws_update
                           (snd (WriteMessage ws (CloseMessage CloseNormalClosure []))) c
                     | Inl err \<Rightarrow> c)
           in (Value (), c1\<lparr>conns := Close_range (conns c1)\<rparr>)))"

definition sendControl ::
  "'a migrationFields_scheme \<Rightarrow> goerr option \<Rightarrow> unit result \<times> 'a migrationFields_scheme" where
  "sendControl c err =
     (case map_of (conns c) SecretNameControl of
        None \<Rightarrow> (Panic, c)
      | Some mc \<Rightarrow>
          (let c1 = (case WebSocket mc of
                       Inr ws \<Rightarrow> control_ws_update (ProtoSendControl ws err) c
                     | Inl e \<Rightarrow> c)
           in if err \<noteq> None then disconnect c1 else (Value (), c1)))"

subsection \<open>Connect, on the source and on the sink\<close>

text \<open>
  The \<open>range\<close> loop of both \<open>Connect\<close> methods over the entries still to visit: an entry
  whose secret differs is skipped (\<open>continue\<close>); the first entry whose secret is the
  presented one accepts the request, and the loop returns there, with the error of
  \<open>AcceptIncoming\<close> wrapped or with \<open>nil\<close>. \<open>role\<close> is the word in which the messages of the
  two methods differ (\<open>source\<close>, \<open>sink\<close>); \<open>%q\<close> puts the name between double quotes. The
  entries come back with the accepted one updated.
\<close>

fun Connect_range ::
  "string \<Rightarrow> string \<Rightarrow> request \<Rightarrow> (string \<times> migrationConn) list
     \<Rightarrow> unit result \<times> (string \<times> migrationConn) list" where
  "Connect_range role incomingSecret r [] =
     (Failure (StatusErrorf StatusForbidden (''Invalid migration '' @ role @ '' secret'')), [])"
| "Connect_range role incomingSecret r ((connName, mc) # rest) =
     (if incomingSecret \<noteq> Secret mc then
        (case Connect_range role incomingSecret r rest of
           (res, rest') \<Rightarrow> (res, (connName, mc) # rest'))
      else
        (case AcceptIncoming mc r of
           Inl err \<Rightarrow>
             (Failure (Errorf (''Failed accepting incoming migration '' @ role @ '' ''
                               @ [CHR 0x22] @ connName @ [CHR 0x22] @ '' connection'') err),
              (connName, mc) # rest)
         | Inr mc' \<Rightarrow> (Value (), (connName, mc') # rest)))"

record migrationSourceWs = migrationFields +
  clusterMoveSourceName :: string
  pushCertificate :: string
  pushOperationURL :: string
  pushSecrets :: "(string \<times> string) list"

definition migrationSourceWs_Connect ::
  "migrationSourceWs \<Rightarrow> request \<Rightarrow> unit result \<times> migrationSourceWs" where
  "migrationSourceWs_Connect s r =
     (let incomingSecret = FormValue r ''secret'' in
      if incomingSecret = [] then
        (Failure (StatusErrorf StatusBadRequest ''Missing migration source secret''), s)
      else
        (case Connect_range ''source'' incomingSecret r (conns s) of
           (res, cs) \<Rightarrow> (res, s\<lparr>conns := cs\<rparr>)))"

record migrationSink = migrationFields +
  url :: string
  push :: bool
  sinkClusterMoveSourceName :: string
  refresh :: bool
  refreshExcludeOlder :: bool

definition migrationSink_Connect ::
  "migrationSink \<Rightarrow> request \<Rightarrow> unit result \<times> migrationSink" where
  "migrationSink_Connect s r =
     (let incomingSecret = FormValue r ''secret'' in
      if incomingSecret = [] then
        (Failure (StatusErrorf StatusBadRequest ''Missing migration sink secret''), s)
      else
        (case Connect_range ''sink'' incomingSecret r (conns s) of
           (res, cs) \<Rightarrow> (res, s\<lparr>conns := cs\<rparr>)))"

subsection \<open>What is observed of a session\<close>

text \<open>
  An entry is closed when it is marked disconnected and its websocket, if it has one, has its
  network connection closed. \<open>status_of\<close> reads the HTTP status of a returned
  \<open>api.StatusErrorf\<close> error; \<open>secrets\<close> are the secrets of the registered entries.
\<close>

definition closed :: "migrationConn \<Rightarrow> bool" where
  "closed mc = (disconnected mc \<and> (case conn mc of None \<Rightarrow> True | Some ws \<Rightarrow> \<not> netOpen ws))"

definition allClosed :: "'a migrationFields_scheme \<Rightarrow> bool" where
  "allClosed c = list_all (\<lambda>(name, mc). closed mc) (conns c)"

definition status_of :: "'a result \<Rightarrow> nat option" where
  "status_of res = (case res of Failure (StatusErrorf code m) \<Rightarrow> Some code | _ \<Rightarrow> None)"

definition secrets :: "'a migrationFields_scheme \<Rightarrow> string set" where
  "secrets c = set (map (\<lambda>(name, mc). Secret mc) (conns c))"

section \<open>internal/server/storage/drivers/interface.go: migration types\<close>

text \<open>
  \<open>Driver.MigrationTypes\<close> is declared in the sources and returns \<open>[]migration.Type\<close>, the
  types one side offers for a content type, in order of preference. The type
  \<open>migration.Type\<close> is not part of the sources; the spec describes it as "a (format
  identifier, per-format feature flags) pair".
\<close>

record migration_Type =
  FSType :: string
  Features :: "string list"

text \<open>
  Modelled from the spec: the function that matches the two offers is not part of the
  sources. The spec: "Both sides call this independently and intersect the two ordered
  lists, source preference breaking ties", "the first mutually-supported entry wins; if no
  entry is mutually supported the migration is rejected before any payload transfer begins",
  with a "no common transfer type" error. \<open>negotiated_transfer\<close> is the step from negotiation
  to transfer: its second component lists the payload transfers that were started.
\<close>

definition intersect_offers :: "migration_Type list \<Rightarrow> migration_Type list \<Rightarrow> migration_Type list" where
  "intersect_offers source sink = filter (\<lambda>t. t \<in> set sink) source"

definition negotiate :: "migration_Type list \<Rightarrow> migration_Type list \<Rightarrow> migration_Type result" where
  "negotiate source sink =
     (case intersect_offers source sink of
        [] \<Rightarrow> Failure (ErrorNew ''No common transfer type'')
      | t # ts \<Rightarrow> Value t)"

definition negotiated_transfer ::
  "migration_Type list \<Rightarrow> migration_Type list \<Rightarrow> string
     \<Rightarrow> unit result \<times> (migration_Type \<times> string) list" where
  "negotiated_transfer source sink payload =
     (case negotiate source sink of
        Value t \<Rightarrow> (Value (), [(t, payload)])
      | Failure e \<Rightarrow> (Failure e, [])
      | Panic \<Rightarrow> (Panic, []))"

section \<open>The publish command (src/unnamed/part_000): cmdPublish.Run\<close>

subsection \<open>The instance server\<close>

record InstanceStatePut =
  Action :: string
  Timeout :: int
  Force :: bool

record Instance =
  StatusCode :: int
  Ephemeral :: bool

record ImagesPostSource =
  Type :: string
  Name :: string

record ImagesPost =
  Source :: ImagesPostSource
  CompressionAlgorithm :: string
  Properties :: "(string \<times> string) list option"
  Public :: bool
  ExpiresAt :: "string option"
  Format :: string

definition Stopped :: int where "Stopped = 102"
definition Running :: int where "Running = 103"

text \<open>
  The requests \<open>Run\<close> sends, in the order of the client interface. \<open>Wait\<close> is \<open>op.Wait()\<close> on
  the operation that a request returned. \<open>UpdateInstance\<close> carries the \<open>Ephemeral\<close> field of
  the \<open>ct.Writable()\<close> it puts.
\<close>

datatype operation =
    OpUpdateInstance bool
  | OpUpdateInstanceState InstanceStatePut
  | OpCopyImage

datatype call =
    GetInstance string
  | UpdateInstance string bool
  | UpdateInstanceState string InstanceStatePut
  | Wait operation
  | GetCommonAliases "string list"
  | CreateImage ImagesPost
  | AddHandler
  | CancelableWait
  | GetImage string
  | CopyImage string bool
  | DeleteImage string
  | DeleteImagesByAliases "string list"
  | EnsureImageAliases "string list" string

text \<open>
  Modelled from the spec: the instance server behind \<open>incus.InstanceServer\<close> is not part of
  the sources; the spec lists what is consumed of it: "stop(timeout, force), start(),
  get-current-state(), update-ephemeral-flag()". The world holds the state and the ephemeral
  flag of the instance, the aliases that exist on the target and the fingerprint in the
  metadata of the image operation (\<open>None\<close> when it is no string), the log of the calls made
  so far with the error each returned (\<open>None\<close> for \<open>nil\<close>), and the errors that the calls still
  to come return, in order (past its end every call succeeds). A request changes the instance
  when the \<open>Wait\<close> on its operation succeeds; a call that fails changes nothing.
\<close>

record world =
  instStatusCode :: int
  instEphemeral :: bool
  targetAliases :: "string list"
  opFingerprint :: "string option"
  calls :: "(call \<times> goerr option) list"
  outcomes :: "goerr option list"

definition effect :: "call \<Rightarrow> world \<Rightarrow> world" where
  "effect c w =
     (case c of
        Wait (OpUpdateInstance e) \<Rightarrow> w\<lparr>instEphemeral := e\<rparr>
      | Wait (OpUpdateInstanceState req) \<Rightarrow>
          (if Action req = ''stop'' then w\<lparr>instStatusCode := Stopped\<rparr>
           else if Action req = ''start'' then w\<lparr>instStatusCode := Running\<rparr>
           else w)
      | _ \<Rightarrow> w)"

definition next_err :: "world \<Rightarrow> goerr option" where
  "next_err w = (case outcomes w of [] \<Rightarrow> None | err # errs \<Rightarrow> err)"

definition logged :: "call \<Rightarrow> world \<Rightarrow> world" where
  "logged c w = w\<lparr>calls := calls w @ [(c, next_err w)], outcomes := tl (outcomes w)\<rparr>"

definition invoke :: "call \<Rightarrow> world \<Rightarrow> goerr option \<times> world" where
  "invoke c w =
     (let err = next_err w; w1 = logged c w
      in (err, if err = None then effect c w1 else w1))"

subsection \<open>Sequencing, early return and defer\<close>

type_synonym 'a prog = "world \<Rightarrow> 'a result \<times> world"

definition ret :: "'a \<Rightarrow> 'a prog" where
  "ret x w = (Value x, w)"

definition throw :: "goerr \<Rightarrow> 'a prog" where
  "throw e w = (Failure e, w)"

text \<open>\<open>x, err := m; if err != nil { return err }; f x\<close>\<close>

definition andThen :: "'a prog \<Rightarrow> ('a \<Rightarrow> 'b prog) \<Rightarrow> 'b prog" where
  "andThen m f w =
     (case m w of
        (Value x, w') \<Rightarrow> f x w'
      | (Failure e, w') \<Rightarrow> (Failure e, w')
      | (Panic, w') \<Rightarrow> (Panic, w'))"

text \<open>\<open>if err != nil { return g err }\<close>, where \<open>g\<close> replaces or wraps the error.\<close>

definition onError :: "(goerr \<Rightarrow> goerr) \<Rightarrow> 'a prog \<Rightarrow> 'a prog" where
  "onError g m w =
     (case m w of
        (Failure e, w') \<Rightarrow> (Failure (g e), w')
      | (res, w') \<Rightarrow> (res, w'))"

text \<open>
  \<open>defer d; m\<close>: the deferred closure runs when the function is left, on every path, a
  panic included; the closures here assign no result of the function, which stays what \<open>m\<close>
  returned.
\<close>

definition deferred :: "(world \<Rightarrow> world) \<Rightarrow> 'a prog \<Rightarrow> 'a prog" where
  "deferred d m w = (case m w of (res, w') \<Rightarrow> (res, d w'))"

definition do_call :: "call \<Rightarrow> unit prog" where
  "do_call c w =
     (case invoke c w of
        (None, w') \<Rightarrow> (Value (), w')
      | (Some e, w') \<Rightarrow> (Failure e, w'))"

definition s_GetInstance :: "string \<Rightarrow> Instance prog" where
  "s_GetInstance name =
     andThen (do_call (GetInstance name))
       (\<lambda>_ w. (Value \<lparr>StatusCode = instStatusCode w, Ephemeral = instEphemeral w\<rparr>, w))"

text \<open>
  Modelled from the spec: \<open>GetCommonAliases\<close> is not part of the sources; it asks the target
  for the aliases and returns those of the given names that exist there.
\<close>

definition d_GetCommonAliases :: "string list \<Rightarrow> string list prog" where
  "d_GetCommonAliases names =
     andThen (do_call (GetCommonAliases names))
       (\<lambda>_ w. (Value (filter (\<lambda>a. a \<in> set (targetAliases w)) names), w))"

subsection \<open>Run\<close>

record cmdPublish =
  flagAliases :: "string list"
  flagCompressionAlgorithm :: string
  flagExpiresAt :: string
  flagMakePublic :: bool
  flagForce :: bool
  flagReuse :: bool
  flagFormat :: string

text \<open>
  What \<open>Run\<close> uses of the client and of libraries that are not part of the sources, taken as
  parameters: \<open>c.global.checkArgs\<close> (its result is \<open>exit\<close> and \<open>err\<close>), \<open>conf.ParseRemote\<close>
  (the remote and the name), \<open>conf.GetInstanceServer\<close> (its error; the servers are named by
  their remotes), \<open>instance.IsSnapshot\<close>, \<open>HasExtension\<close> of the server of a remote, and
  \<open>time.Parse\<close> for RFC 3339.
\<close>

record env =
  checkArgs :: "string list \<Rightarrow> int \<Rightarrow> int \<Rightarrow> bool \<times> goerr option"
  ParseRemote :: "string \<Rightarrow> goerr + string \<times> string"
  GetInstanceServer :: "string \<Rightarrow> goerr option"
  IsSnapshot :: "string \<Rightarrow> bool"
  HasExtension :: "string \<Rightarrow> string \<Rightarrow> bool"
  time_Parse :: "string \<Rightarrow> goerr + string"

record locals =
  cRemote :: string
  cName :: string
  iRemote :: string
  iName :: string
  firstprop :: nat

text \<open>
  Lines 64 to 114: the arguments and the two servers. \<open>Value None\<close> is the early
  \<open>return err\<close> with \<open>err = nil\<close>; \<open>args[0]\<close> panics on an empty slice.
\<close>

definition Run_args :: "env \<Rightarrow> string list \<Rightarrow> locals option result" where
  "Run_args en args =
     (case checkArgs en args 1 (- 1) of
        (True, None) \<Rightarrow> Value None
      | (True, Some err) \<Rightarrow> Failure err
      | (False, _) \<Rightarrow>
          (case args of
             [] \<Rightarrow> Panic
           | a0 # others \<Rightarrow>
               (case ParseRemote en a0 of
                  Inl err \<Rightarrow> Failure err
                | Inr (cR, cN) \<Rightarrow>
                    (case (if length args \<ge> 2 \<and> CHR ''='' \<notin> set (args ! 1)
                           then (2, ParseRemote en (args ! 1))
                           else (1, ParseRemote en [])) of
                       (fp, Inl err) \<Rightarrow> Failure err
                     | (fp, Inr (iR, iN)) \<Rightarrow>
                         if cN = [] then Failure (ErrorNew ''Instance name is mandatory'')
                         else if iN \<noteq> [] then
                           Failure (ErrorNew (''There is no '' @ [CHR 0x22] @ ''image name''
                                     @ [CHR 0x22] @ ''.  Did you want an alias?''))
                         else
                           (case GetInstanceServer en iR of
                              Some err \<Rightarrow> Failure err
                            | None \<Rightarrow>
                                (case (if cR \<noteq> iR then GetInstanceServer en cR else None) of
                                   Some err \<Rightarrow> Failure err
                                 | None \<Rightarrow>
                                     Value (Some \<lparr>cRemote = cR, cName = cN, iRemote = iR,
                                                  iName = iN, firstprop = fp\<rparr>)))))))"

definition stopReq :: InstanceStatePut where
  "stopReq = \<lparr>Action = ''stop'', Timeout = - 1, Force = True\<rparr>"

definition startReq :: InstanceStatePut where
  "startReq = stopReq\<lparr>Action := ''start''\<rparr>"

text \<open>
  Lines 117 to 159: the instance is read; a running instance needs \<open>--force\<close>; its ephemeral
  flag is cleared when set; it is stopped. The result says whether the instance was stopped
  (then the restart is deferred next) and \<open>wasEphemeral\<close>.
\<close>

definition Run_stop :: "cmdPublish \<Rightarrow> string \<Rightarrow> (bool \<times> bool) prog" where
  "Run_stop c name =
     andThen (s_GetInstance name) (\<lambda>ct.
       let wasRunning = (StatusCode ct \<noteq> 0 \<and> StatusCode ct \<noteq> Stopped);
           wasEphemeral = Ephemeral ct
       in if wasRunning then
            if \<not> flagForce c then
              throw (ErrorNew ''The instance is currently running. Use --force to have it stopped and restarted'')
            else
              andThen (if Ephemeral ct then
                         andThen (do_call (UpdateInstance name False))
                           (\<lambda>_. do_call (Wait (OpUpdateInstance False)))
                       else ret ()) (\<lambda>_.
              andThen (do_call (UpdateInstanceState name stopReq)) (\<lambda>_.
              andThen (onError (\<lambda>_. ErrorNew ''Stopping instance failed!'')
                         (do_call (Wait (OpUpdateInstanceState stopReq)))) (\<lambda>_.
              ret (True, wasEphemeral))))
          else ret (False, wasEphemeral))"

text \<open>Lines 162 to 170, the deferred closure: start the instance back up on exit.\<close>

definition Run_restart :: "string \<Rightarrow> world \<Rightarrow> world" where
  "Run_restart name w =
     (case invoke (UpdateInstanceState name startReq) w of
        (Some err, w1) \<Rightarrow> w1
      | (None, w1) \<Rightarrow> snd (invoke (Wait (OpUpdateInstanceState startReq)) w1))"

text \<open>Lines 173 to 189: if the ephemeral flag had to be cleared, restore it now.\<close>

definition Run_restore :: "string \<Rightarrow> bool \<Rightarrow> unit prog" where
  "Run_restore name wasEphemeral =
     (if wasEphemeral then
        andThen (s_GetInstance name) (\<lambda>ct.
        andThen (do_call (UpdateInstance name True)) (\<lambda>_.
        do_call (Wait (OpUpdateInstance True))))
      else ret ())"

text \<open>
  Lines 193 to 200, the loop over \<open>args[firstprop:]\<close>: \<open>strings.SplitN(arg, "=", 2)\<close> has
  fewer than two parts when \<open>arg\<close> has no \<open>=\<close>; a later value for a key replaces the earlier
  one in the map \<open>properties\<close>.
\<close>

fun parse_properties ::
  "string list \<Rightarrow> (string \<times> string) list \<Rightarrow> (string \<times> string) list result" where
  "parse_properties [] properties = Value properties"
| "parse_properties (arg # rest) properties =
     (if CHR ''='' \<notin> set arg then
        Failure (ErrorNew (''Bad key=value pair: ['' @ arg @ '']''))
      else
        (let key = takeWhile (\<lambda>ch. ch \<noteq> CHR ''='') arg;
             val = tl (dropWhile (\<lambda>ch. ch \<noteq> CHR ''='') arg)
         in parse_properties rest ((key, val) # filter (\<lambda>kv. fst kv \<noteq> key) properties)))"

fun strings_Join :: "string list \<Rightarrow> string \<Rightarrow> string" where
  "strings_Join [] sep = []"
| "strings_Join [x] sep = x"
| "strings_Join (x # y # ys) sep = x @ sep @ strings_Join (y # ys) sep"

definition lift :: "'a result \<Rightarrow> 'a prog" where
  "lift res w = (res, w)"

definition op_fingerprint :: "string prog" where
  "op_fingerprint w =
     (case opFingerprint w of
        None \<Rightarrow> (Failure (ErrorNew ''Bad fingerprint''), w)
      | Some fingerprint \<Rightarrow> (Value fingerprint, w))"

text \<open>
  Lines 193 to 339: the image is created on the server of the instance, copied to the
  target on a remote publish (the deferred \<open>DeleteImage\<close> then runs when \<open>Run\<close> is left),
  and the aliases are set. The progress renderer and the final \<open>Printf\<close> only print.
\<close>

definition Run_publish :: "cmdPublish \<Rightarrow> env \<Rightarrow> string list \<Rightarrow> locals \<Rightarrow> unit prog" where
  "Run_publish c en args l =
     andThen (lift (parse_properties (drop (firstprop l) args) [])) (\<lambda>props.
     let properties = (if props = [] then None else Some props);
         aliases = flagAliases c;
         sourceType = (if IsSnapshot en (cName l) then ''snapshot''
                       else if \<not> HasExtension en (cRemote l) ''instances'' then ''container''
                       else ''instance'');
         public = (if cRemote l = iRemote l then flagMakePublic c else False)
     in
     andThen (if flagExpiresAt c \<noteq> [] then
                (case time_Parse en (flagExpiresAt c) of
                   Inl err \<Rightarrow> throw (Errorf ''Invalid expiration date'' err)
                 | Inr expiresAt \<Rightarrow> ret (Some expiresAt))
              else ret None) (\<lambda>expiresAt.
     andThen (onError (Errorf ''Error retrieving aliases'') (d_GetCommonAliases aliases))
       (\<lambda>existingAliases.
     if \<not> flagReuse c \<and> existingAliases \<noteq> [] then
       throw (ErrorNew (''Aliases already exists: '' @ strings_Join existingAliases '', ''))
     else
     andThen (do_call (CreateImage
                \<lparr>Source = \<lparr>Type = sourceType, Name = cName l\<rparr>,
                 CompressionAlgorithm = flagCompressionAlgorithm c,
                 Properties = properties, Public = public, ExpiresAt = expiresAt,
                 Format = flagFormat c\<rparr>)) (\<lambda>_.
     andThen (do_call AddHandler) (\<lambda>_.
     andThen (do_call CancelableWait) (\<lambda>_.
     andThen op_fingerprint (\<lambda>fingerprint.
     let finish =
           andThen (if flagReuse c then do_call (DeleteImagesByAliases aliases) else ret ())
             (\<lambda>_. do_call (EnsureImageAliases aliases fingerprint))
     in if cRemote l \<noteq> iRemote l then
          deferred (\<lambda>w. snd (invoke (DeleteImage fingerprint) w))
            (andThen (do_call (GetImage fingerprint)) (\<lambda>_.
             andThen (do_call (CopyImage fingerprint (flagMakePublic c))) (\<lambda>_.
             andThen (do_call (Wait OpCopyImage)) (\<lambda>_. finish))))
        else finish)))))))"

text \<open>
  \<open>Run\<close>: the restart is deferred right after the stop has succeeded, so it covers the
  restoring of the ephemeral flag and the whole publishing that follow.
\<close>

definition Run :: "cmdPublish \<Rightarrow> env \<Rightarrow> string list \<Rightarrow> unit prog" where
  "Run c en args w =
     (case Run_args en args of
        Panic \<Rightarrow> (Panic, w)
      | Failure err \<Rightarrow> (Failure err, w)
      | Value None \<Rightarrow> (Value (), w)
      | Value (Some l) \<Rightarrow>
          (if \<not> IsSnapshot en (cName l) then
             (case Run_stop c (cName l) w of
                (Value (True, wasEphemeral), w1) \<Rightarrow>
                  deferred (Run_restart (cName l))
                    (andThen (Run_restore (cName l) wasEphemeral)
                       (\<lambda>_. Run_publish c en args l)) w1
              | (Value (False, wasEphemeral), w1) \<Rightarrow> Run_publish c en args l w1
              | (Failure err, w1) \<Rightarrow> (Failure err, w1)
              | (Panic, w1) \<Rightarrow> (Panic, w1))
           else Run_publish c en args l w))"

subsection \<open>What is observed of a run\<close>

text \<open>
  The requests that read or change the instance; the stop having succeeded; the restart
  attempt that the deferred closure leaves at the end of the log: the start request that
  failed, or the start request and the \<open>Wait\<close> on it.
\<close>

fun instance_call :: "call \<Rightarrow> bool" where
  "instance_call (GetInstance name) = True"
| "instance_call (UpdateInstance name e) = True"
| "instance_call (UpdateInstanceState name req) = True"
| "instance_call (Wait (OpUpdateInstance e)) = True"
| "instance_call (Wait (OpUpdateInstanceState req)) = True"
| "instance_call c = False"

text \<open>
  \<open>w'\<close> comes from \<open>w\<close> by requests that are no instance requests: the log has grown by
  such requests only, and the instance is as it was.
\<close>

definition image_only :: "world \<Rightarrow> world \<Rightarrow> bool" where
  "image_only w w' =
     ((\<exists>es. calls w' = calls w @ es \<and> list_all (\<lambda>e. \<not> instance_call (fst e)) es)
      \<and> instStatusCode w' = instStatusCode w \<and> instEphemeral w' = instEphemeral w)"

definition quiet :: "'a prog \<Rightarrow> bool" where
  "quiet m = (\<forall>w. image_only w (snd (m w)))"

text \<open>The log of the stop that succeeded, with or without the clearing of the flag.\<close>

definition stop_log :: "string \<Rightarrow> bool \<Rightarrow> (call \<times> goerr option) list" where
  "stop_log name wasEphemeral =
     (GetInstance name, None)
     # (if wasEphemeral then [(UpdateInstance name False, None), (Wait (OpUpdateInstance False), None)]
        else [])
     @ [(UpdateInstanceState name stopReq, None), (Wait (OpUpdateInstanceState stopReq), None)]"

definition stop_succeeded :: "(call \<times> goerr option) list \<Rightarrow> bool" where
  "stop_succeeded log = ((Wait (OpUpdateInstanceState stopReq), None) \<in> set log)"

fun restart_attempt :: "string \<Rightarrow> (call \<times> goerr option) list \<Rightarrow> bool" where
  "restart_attempt name [(c, Some err)] = (c = UpdateInstanceState name startReq)"
| "restart_attempt name [(c, None), (c', res)] =
     (c = UpdateInstanceState name startReq \<and> c' = Wait (OpUpdateInstanceState startReq))"
| "restart_attempt name log = False"

text \<open>
  The one attempt to restore the flag, as it shows in the log: the read of the instance, the
  update that sets the flag and the \<open>Wait\<close> on it, in this order and each at most once, up
  to the first of them that fails. The result of the attempt is the result of its last
  request.
\<close>

fun restore_attempt :: "string \<Rightarrow> (call \<times> goerr option) list \<Rightarrow> bool" where
  "restore_attempt name [(c, Some err)] = (c = GetInstance name)"
| "restore_attempt name [(c, None), (c', Some err)] =
     (c = GetInstance name \<and> c' = UpdateInstance name True)"
| "restore_attempt name [(c, None), (c', None), (c'', res)] =
     (c = GetInstance name \<and> c' = UpdateInstance name True
      \<and> c'' = Wait (OpUpdateInstance True))"
| "restore_attempt name log = False"

section \<open>Example sessions and requests\<close>

definition pendingConn :: "string \<Rightarrow> migrationConn" where
  "pendingConn s = \<lparr>secret = s, conn = None, disconnected = False\<rparr>"

definition freshWs :: wsConn where
  "freshWs = \<lparr>written = [], unread = [], netOpen = True\<rparr>"

definition establishedConn :: "string \<Rightarrow> migrationConn" where
  "establishedConn s = \<lparr>secret = s, conn = Some freshWs, disconnected = False\<rparr>"

definition session :: "(string \<times> migrationConn) list \<Rightarrow> migrationFields" where
  "session cs = \<lparr>conns = cs, live = False, instanceOnly = False, volumeOnly = False,
      allowInconsistent = False, storagePool = []\<rparr>"

definition pendingSession :: migrationFields where
  "pendingSession = session [(''control'', pendingConn ''s1''), (''fs'', pendingConn ''s2'')]"

definition establishedSession :: migrationFields where
  "establishedSession =
     session [(''control'', establishedConn ''s1''), (''fs'', establishedConn ''s2'')]"

definition sourceSession :: migrationSourceWs where
  "sourceSession =
     \<lparr>conns = [(''control'', pendingConn ''s1''), (''fs'', pendingConn ''s2'')],
      live = False, instanceOnly = False, volumeOnly = False, allowInconsistent = False,
      storagePool = [], clusterMoveSourceName = [], pushCertificate = [],
      pushOperationURL = [], pushSecrets = []\<rparr>"

definition sinkSession :: migrationSink where
  "sinkSession =
     \<lparr>conns = [(''control'', pendingConn ''s1''), (''fs'', pendingConn ''s2'')],
      live = False, instanceOnly = False, volumeOnly = False, allowInconsistent = False,
      storagePool = [], url = [], push = False, sinkClusterMoveSourceName = [],
      refresh = False, refreshExcludeOlder = False\<rparr>"

definition noSecretRequest :: request where
  "noSecretRequest = \<lparr>form = [], upgrade = Inr freshWs\<rparr>"

definition prefixSecretRequest :: request where
  "prefixSecretRequest = \<lparr>form = [(''secret'', ''s'')], upgrade = Inr freshWs\<rparr>"

definition fsSecretRequest :: request where
  "fsSecretRequest = \<lparr>form = [(''secret'', ''s2'')], upgrade = Inr freshWs\<rparr>"

definition plainHttpRequest :: request where
  "plainHttpRequest =
     \<lparr>form = [(''secret'', ''s1'')],
      upgrade = Inl (ErrorNew ''websocket: the client is not using the websocket protocol'')\<rparr>"

section \<open>Example runs of the publish command\<close>

definition localEnv :: env where
  "localEnv =
     \<lparr>checkArgs = (\<lambda>args minArgs maxArgs.
          if int (length args) < minArgs then (True, Some (ErrorNew ''Invalid number of arguments''))
          else (False, None)),
      ParseRemote = (\<lambda>s. Inr (''local'', s)),
      GetInstanceServer = (\<lambda>remote. None),
      IsSnapshot = (\<lambda>name. CHR ''/'' \<in> set name),
      HasExtension = (\<lambda>remote ext. True),
      time_Parse = (\<lambda>s. Inr s)\<rparr>"

definition publishCmd :: "bool \<Rightarrow> cmdPublish" where
  "publishCmd force =
     \<lparr>flagAliases = [''web''], flagCompressionAlgorithm = [], flagExpiresAt = [],
      flagMakePublic = False, flagForce = force, flagReuse = False,
      flagFormat = ''unified''\<rparr>"

definition runningEphemeral :: "goerr option list \<Rightarrow> world" where
  "runningEphemeral errs =
     \<lparr>instStatusCode = Running, instEphemeral = True, targetAliases = [],
      opFingerprint = Some ''abc123'', calls = [], outcomes = errs\<rparr>"

definition runningPlain :: "goerr option list \<Rightarrow> world" where
  "runningPlain errs =
     \<lparr>instStatusCode = Running, instEphemeral = False, targetAliases = [],
      opFingerprint = Some ''abc123'', calls = [], outcomes = errs\<rparr>"

section \<open>Example migration types\<close>

definition zfs :: migration_Type where "zfs = \<lparr>FSType = ''ZFS'', Features = [''compress'']\<rparr>"

definition btrfs :: migration_Type where "btrfs = \<lparr>FSType = ''BTRFS'', Features = []\<rparr>"

definition rsync :: migration_Type where "rsync = \<lparr>FSType = ''RSYNC'', Features = [''xattrs'', ''delete'']\<rparr>"

section \<open>Control connection not initialized\<close>

text \<open>
  C10. When the control entry yields no usable websocket (its \<open>WebSocket\<close> returns an error
  \<open>e\<close>), \<open>send\<close> and \<open>recv\<close> both return the error that wraps \<open>e\<close> under the description
  "Control connection not initialized"; they return (no panic), and the session, with every
  stream in it, is left as it was: nothing is written and nothing is read.
\<close>

theorem send_recv_control_not_initialized:
  assumes "map_of (conns c) SecretNameControl = Some mc"
    and "WebSocket mc = Inl e"
  shows "send c m = (Failure (Errorf ''Control connection not initialized'' e), c)
       \<and> recv c = (Failure (Errorf ''Control connection not initialized'' e), c)"
  using assms by (simp add: send_def recv_def)

theorem send_recv_control_not_initialized_witness:
  "map_of (conns pendingSession) SecretNameControl = Some (pendingConn ''s1'')
   \<and> WebSocket (pendingConn ''s1'') = Inl (ErrorNew ''Connection not established'')
   \<and> send pendingSession (MigrationHeader ''offer'')
       = (Failure (Errorf ''Control connection not initialized''
                     (ErrorNew ''Connection not established'')), pendingSession)
   \<and> recv pendingSession
       = (Failure (Errorf ''Control connection not initialized''
                     (ErrorNew ''Connection not established'')), pendingSession)"
proof -
  have look: "map_of (conns pendingSession) SecretNameControl = Some (pendingConn ''s1'')"
    by (simp add: pendingSession_def session_def SecretNameControl_def)
  have ws: "WebSocket (pendingConn ''s1'') = Inl (ErrorNew ''Connection not established'')"
    by (simp add: WebSocket_def pendingConn_def)
  show ?thesis
    using look ws send_recv_control_not_initialized [OF look ws, of "MigrationHeader ''offer''"]
    by simp
qed

section \<open>The session: teardown, terminal status, Connect\<close>

lemma closed_Close: "closed (Close mc)"
  by (simp add: closed_def Close_def split: option.splits)


lemma WebSocket_Close: "WebSocket (Close mc) = Inl (ErrorNew ''Connection already disconnected'')"
  by (simp add: WebSocket_def Close_def)

lemma map_of_control_ws_update:
  "map_of (conns c) SecretNameControl = Some mc \<Longrightarrow>
   map_of (conns (control_ws_update ws c)) SecretNameControl = Some (mc\<lparr>conn := Some ws\<rparr>)"
proof -
  have "map_of cs k = Some mc \<Longrightarrow>
        map_of (map (\<lambda>(name, mc). if name = k then (name, mc\<lparr>conn := Some ws\<rparr>) else (name, mc)) cs) k
          = Some (mc\<lparr>conn := Some ws\<rparr>)" for cs k
    by (induction cs) (auto split: if_splits)
  then show "map_of (conns c) SecretNameControl = Some mc \<Longrightarrow> ?thesis"
    by (simp add: control_ws_update_def)
qed

lemma names_control_ws_update: "map fst (conns (control_ws_update ws c)) = map fst (conns c)"
  by (simp add: control_ws_update_def comp_def case_prod_unfold)

lemma map_of_Close_range: "map_of (Close_range cs) k = map_option Close (map_of cs k)"
  by (induction cs) (auto simp: Close_range_def)



lemma closed_Close_range: "list_all (\<lambda>(name, mc). closed mc) (Close_range cs)"
  by (simp add: Close_range_def list_all_iff closed_Close case_prod_unfold)


lemma disconnect_result:
  assumes "map_of (conns c) SecretNameControl = Some mc"
  shows "\<exists>c1. disconnect c = (Value (), c1\<lparr>conns := Close_range (conns c1)\<rparr>)
          \<and> map fst (conns c1) = map fst (conns c)
          \<and> map_of (conns c1) SecretNameControl \<noteq> None"
proof (cases "WebSocket mc")
  case (Inl e)
  with assms show ?thesis by (auto simp: disconnect_def)
next
  case (Inr ws)
  let ?c1 = "control_ws_update (snd (WriteMessage ws (CloseMessage CloseNormalClosure []))) c"
  have "disconnect c = (Value (), ?c1\<lparr>conns := Close_range (conns ?c1)\<rparr>)"
    using assms Inr by (simp add: disconnect_def Let_def)
  moreover have "map fst (conns ?c1) = map fst (conns c)"
    by (rule names_control_ws_update)
  moreover have "map_of (conns ?c1) SecretNameControl \<noteq> None"
    using map_of_control_ws_update[OF assms] by simp
  ultimately show ?thesis by blast
qed



lemma Connect_range_no_match:
  "incomingSecret \<notin> set (map (\<lambda>(name, mc). Secret mc) cs) \<Longrightarrow>
   Connect_range role incomingSecret r cs
     = (Failure (StatusErrorf StatusForbidden (''Invalid migration '' @ role @ '' secret'')), cs)"
  by (induction cs) auto

lemma Connect_range_match:
  "find (\<lambda>(name, mc). Secret mc = incomingSecret) cs = Some (connName, mc) \<Longrightarrow>
   \<exists>before after. cs = before @ (connName, mc) # after
     \<and> incomingSecret \<notin> set (map (\<lambda>(name, mc). Secret mc) before)
     \<and> Connect_range role incomingSecret r cs =
         (case AcceptIncoming mc r of
            Inl err \<Rightarrow>
              (Failure (Errorf (''Failed accepting incoming migration '' @ role @ '' ''
                                @ [CHR 0x22] @ connName @ [CHR 0x22] @ '' connection'') err), cs)
          | Inr mc' \<Rightarrow> (Value (), before @ (connName, mc') # after))"
proof (induction cs)
  case Nil
  then show ?case by simp
next
  case (Cons a cs)
  obtain n m where a: "a = (n, m)" by (cases a)
  show ?case
  proof (cases "Secret m = incomingSecret")
    case True
    with Cons.prems a have "n = connName" "m = mc" by auto
    with True a show ?thesis
      by (intro exI[of _ "[]"] exI[of _ cs]) (auto split: sum.splits)
  next
    case False
    with Cons.prems a have "find (\<lambda>(name, mc). Secret mc = incomingSecret) cs = Some (connName, mc)"
      by simp
    from Cons.IH[OF this] obtain before after where
      s: "cs = before @ (connName, mc) # after"
      and nb: "incomingSecret \<notin> set (map (\<lambda>(name, mc). Secret mc) before)"
      and c: "Connect_range role incomingSecret r cs =
         (case AcceptIncoming mc r of
            Inl err \<Rightarrow>
              (Failure (Errorf (''Failed accepting incoming migration '' @ role @ '' ''
                                @ [CHR 0x22] @ connName @ [CHR 0x22] @ '' connection'') err), cs)
          | Inr mc' \<Rightarrow> (Value (), before @ (connName, mc') # after))"
      by blast
    show ?thesis
      using False a s nb c
      by (intro exI[of _ "a # before"] exI[of _ after]) (auto split: sum.splits)
  qed
qed

lemma find_secret_None:
  "find (\<lambda>(name, mc). Secret mc = s) cs = None \<longleftrightarrow> s \<notin> set (map (\<lambda>(name, mc). Secret mc) cs)"
  by (induction cs) auto


lemma Connect_range_forbidden_or_accept:
  "(incomingSecret \<notin> set (map (\<lambda>(name, mc). Secret mc) cs) \<longrightarrow>
      Connect_range role incomingSecret r cs
        = (Failure (StatusErrorf StatusForbidden (''Invalid migration '' @ role @ '' secret'')), cs))
   \<and> (incomingSecret \<in> set (map (\<lambda>(name, mc). Secret mc) cs) \<longrightarrow>
      (\<exists>connName mc before after.
         cs = before @ (connName, mc) # after \<and> Secret mc = incomingSecret
       \<and> incomingSecret \<notin> set (map (\<lambda>(name, mc). Secret mc) before)
       \<and> Connect_range role incomingSecret r cs =
           (case AcceptIncoming mc r of
              Inl err \<Rightarrow>
                (Failure (Errorf (''Failed accepting incoming migration '' @ role @ '' ''
                                  @ [CHR 0x22] @ connName @ [CHR 0x22] @ '' connection'') err), cs)
            | Inr mc' \<Rightarrow> (Value (), before @ (connName, mc') # after))))"
proof (intro conjI impI)
  assume "incomingSecret \<notin> set (map (\<lambda>(name, mc). Secret mc) cs)"
  then show "Connect_range role incomingSecret r cs
        = (Failure (StatusErrorf StatusForbidden (''Invalid migration '' @ role @ '' secret'')), cs)"
    by (rule Connect_range_no_match)
next
  assume "incomingSecret \<in> set (map (\<lambda>(name, mc). Secret mc) cs)"
  then have "find (\<lambda>(name, mc). Secret mc = incomingSecret) cs \<noteq> None"
    by (simp add: find_secret_None)
  then obtain connName mc where f: "find (\<lambda>(name, mc). Secret mc = incomingSecret) cs = Some (connName, mc)"
    by auto
  then have "Secret mc = incomingSecret"
    by (auto simp: find_Some_iff)
  with Connect_range_match[OF f, of role r]
  show "\<exists>connName mc before after.
         cs = before @ (connName, mc) # after \<and> Secret mc = incomingSecret
       \<and> incomingSecret \<notin> set (map (\<lambda>(name, mc). Secret mc) before)
       \<and> Connect_range role incomingSecret r cs =
           (case AcceptIncoming mc r of
              Inl err \<Rightarrow>
                (Failure (Errorf (''Failed accepting incoming migration '' @ role @ '' ''
                                  @ [CHR 0x22] @ connName @ [CHR 0x22] @ '' connection'') err), cs)
            | Inr mc' \<Rightarrow> (Value (), before @ (connName, mc') # after))"
    by blast
qed

text \<open>
  C3. On both \<open>Connect\<close> endpoints: a request that presents no secret (an empty form value)
  gets an error with HTTP status 400; a request whose non-empty secret is the secret of no
  registered entry gets an error with HTTP status 403, never 404. The session is unchanged
  in both cases.
\<close>

theorem Connect_missing_or_unknown_secret:
  fixes s :: migrationSourceWs and k :: migrationSink
  shows "(FormValue r ''secret'' = [] \<longrightarrow>
            status_of (fst (migrationSourceWs_Connect s r)) = Some 400
          \<and> status_of (fst (migrationSink_Connect k r)) = Some 400
          \<and> snd (migrationSourceWs_Connect s r) = s \<and> snd (migrationSink_Connect k r) = k)
       \<and> (FormValue r ''secret'' \<noteq> [] \<and> FormValue r ''secret'' \<notin> secrets s \<longrightarrow>
            status_of (fst (migrationSourceWs_Connect s r)) = Some 403
          \<and> status_of (fst (migrationSourceWs_Connect s r)) \<noteq> Some StatusNotFound
          \<and> snd (migrationSourceWs_Connect s r) = s)
       \<and> (FormValue r ''secret'' \<noteq> [] \<and> FormValue r ''secret'' \<notin> secrets k \<longrightarrow>
            status_of (fst (migrationSink_Connect k r)) = Some 403
          \<and> status_of (fst (migrationSink_Connect k r)) \<noteq> Some StatusNotFound
          \<and> snd (migrationSink_Connect k r) = k)"
  by (simp add: migrationSourceWs_Connect_def migrationSink_Connect_def Let_def status_of_def
      secrets_def Connect_range_no_match StatusBadRequest_def StatusForbidden_def
      StatusNotFound_def)

theorem Connect_missing_or_unknown_secret_witness:
  "FormValue noSecretRequest ''secret'' = []
   \<and> status_of (fst (migrationSourceWs_Connect sourceSession noSecretRequest)) = Some 400
   \<and> status_of (fst (migrationSink_Connect sinkSession noSecretRequest)) = Some 400
   \<and> FormValue prefixSecretRequest ''secret'' = ''s''
   \<and> ''s'' \<notin> secrets sourceSession \<and> ''s'' \<notin> secrets sinkSession
   \<and> status_of (fst (migrationSourceWs_Connect sourceSession prefixSecretRequest)) = Some 403
   \<and> status_of (fst (migrationSink_Connect sinkSession prefixSecretRequest)) = Some 403"
proof -
  have a: "FormValue noSecretRequest ''secret'' = []"
    by (simp add: FormValue_def noSecretRequest_def)
  have b: "FormValue prefixSecretRequest ''secret'' = ''s''"
    by (simp add: FormValue_def prefixSecretRequest_def)
  have c: "''s'' \<notin> secrets sourceSession" "''s'' \<notin> secrets sinkSession"
    by (simp_all add: secrets_def sourceSession_def sinkSession_def Secret_def pendingConn_def)
  show ?thesis
    using a b c
      Connect_missing_or_unknown_secret [of noSecretRequest sourceSession sinkSession]
      Connect_missing_or_unknown_secret [of prefixSecretRequest sourceSession sinkSession]
    by simp
qed

text \<open>
  C2, as amended. For a non-empty presented secret, on both endpoints: when the secret is
  the secret of no registered entry (a proper prefix or suffix of one included), \<open>Connect\<close>
  returns the 403 authorization failure and establishes nothing; when it is exactly the
  secret of a registered entry, \<open>Connect\<close> attempts the upgrade on the first such entry that
  the loop visits, and only there: it returns \<open>nil\<close> with that one entry established when
  \<open>AcceptIncoming\<close> succeeds, and returns the wrapped error of \<open>AcceptIncoming\<close>, with the
  session unchanged, when it fails.
\<close>

theorem Connect_secret_exact:
  fixes s :: migrationSourceWs and k :: migrationSink
  assumes "FormValue r ''secret'' = sec" and "sec \<noteq> []"
  shows "(sec \<notin> secrets s \<longrightarrow>
            migrationSourceWs_Connect s r
              = (Failure (StatusErrorf StatusForbidden ''Invalid migration source secret''), s))
       \<and> (sec \<in> secrets s \<longrightarrow>
            (\<exists>connName mc before after.
               conns s = before @ (connName, mc) # after \<and> Secret mc = sec
             \<and> sec \<notin> set (map (\<lambda>(name, mc). Secret mc) before)
             \<and> migrationSourceWs_Connect s r =
                 (case AcceptIncoming mc r of
                    Inl err \<Rightarrow>
                      (Failure (Errorf (''Failed accepting incoming migration source ''
                                        @ [CHR 0x22] @ connName @ [CHR 0x22] @ '' connection'') err), s)
                  | Inr mc' \<Rightarrow> (Value (), s\<lparr>conns := before @ (connName, mc') # after\<rparr>))))
       \<and> (sec \<notin> secrets k \<longrightarrow>
            migrationSink_Connect k r
              = (Failure (StatusErrorf StatusForbidden ''Invalid migration sink secret''), k))
       \<and> (sec \<in> secrets k \<longrightarrow>
            (\<exists>connName mc before after.
               conns k = before @ (connName, mc) # after \<and> Secret mc = sec
             \<and> sec \<notin> set (map (\<lambda>(name, mc). Secret mc) before)
             \<and> migrationSink_Connect k r =
                 (case AcceptIncoming mc r of
                    Inl err \<Rightarrow>
                      (Failure (Errorf (''Failed accepting incoming migration sink ''
                                        @ [CHR 0x22] @ connName @ [CHR 0x22] @ '' connection'') err), k)
                  | Inr mc' \<Rightarrow> (Value (), k\<lparr>conns := before @ (connName, mc') # after\<rparr>))))"
proof -
  note src = Connect_range_forbidden_or_accept [of sec "conns s" "''source''" r]
  note snk = Connect_range_forbidden_or_accept [of sec "conns k" "''sink''" r]
  have 1: "sec \<notin> secrets s \<longrightarrow>
            migrationSourceWs_Connect s r
              = (Failure (StatusErrorf StatusForbidden ''Invalid migration source secret''), s)"
    using assms src by (simp add: migrationSourceWs_Connect_def secrets_def)
  have 2: "sec \<in> secrets s \<longrightarrow>
            (\<exists>connName mc before after.
               conns s = before @ (connName, mc) # after \<and> Secret mc = sec
             \<and> sec \<notin> set (map (\<lambda>(name, mc). Secret mc) before)
             \<and> migrationSourceWs_Connect s r =
                 (case AcceptIncoming mc r of
                    Inl err \<Rightarrow>
                      (Failure (Errorf (''Failed accepting incoming migration source ''
                                        @ [CHR 0x22] @ connName @ [CHR 0x22] @ '' connection'') err), s)
                  | Inr mc' \<Rightarrow> (Value (), s\<lparr>conns := before @ (connName, mc') # after\<rparr>)))"
  proof
    assume "sec \<in> secrets s"
    with src obtain connName mc before after where
      "conns s = before @ (connName, mc) # after" "Secret mc = sec"
      "sec \<notin> set (map (\<lambda>(name, mc). Secret mc) before)"
      "Connect_range ''source'' sec r (conns s) =
           (case AcceptIncoming mc r of
              Inl err \<Rightarrow>
                (Failure (Errorf (''Failed accepting incoming migration '' @ ''source'' @ '' ''
                                  @ [CHR 0x22] @ connName @ [CHR 0x22] @ '' connection'') err), conns s)
            | Inr mc' \<Rightarrow> (Value (), before @ (connName, mc') # after))"
      unfolding secrets_def by blast
    then show "\<exists>connName mc before after.
               conns s = before @ (connName, mc) # after \<and> Secret mc = sec
             \<and> sec \<notin> set (map (\<lambda>(name, mc). Secret mc) before)
             \<and> migrationSourceWs_Connect s r =
                 (case AcceptIncoming mc r of
                    Inl err \<Rightarrow>
                      (Failure (Errorf (''Failed accepting incoming migration source ''
                                        @ [CHR 0x22] @ connName @ [CHR 0x22] @ '' connection'') err), s)
                  | Inr mc' \<Rightarrow> (Value (), s\<lparr>conns := before @ (connName, mc') # after\<rparr>))"
      using assms
      by (intro exI[of _ connName] exI[of _ mc] exI[of _ before] exI[of _ after])
         (simp add: migrationSourceWs_Connect_def split: sum.splits)
  qed
  have 3: "sec \<notin> secrets k \<longrightarrow>
            migrationSink_Connect k r
              = (Failure (StatusErrorf StatusForbidden ''Invalid migration sink secret''), k)"
    using assms snk by (simp add: migrationSink_Connect_def secrets_def)
  have 4: "sec \<in> secrets k \<longrightarrow>
            (\<exists>connName mc before after.
               conns k = before @ (connName, mc) # after \<and> Secret mc = sec
             \<and> sec \<notin> set (map (\<lambda>(name, mc). Secret mc) before)
             \<and> migrationSink_Connect k r =
                 (case AcceptIncoming mc r of
                    Inl err \<Rightarrow>
                      (Failure (Errorf (''Failed accepting incoming migration sink ''
                                        @ [CHR 0x22] @ connName @ [CHR 0x22] @ '' connection'') err), k)
                  | Inr mc' \<Rightarrow> (Value (), k\<lparr>conns := before @ (connName, mc') # after\<rparr>)))"
  proof
    assume "sec \<in> secrets k"
    with snk obtain connName mc before after where
      "conns k = before @ (connName, mc) # after" "Secret mc = sec"
      "sec \<notin> set (map (\<lambda>(name, mc). Secret mc) before)"
      "Connect_range ''sink'' sec r (conns k) =
           (case AcceptIncoming mc r of
              Inl err \<Rightarrow>
                (Failure (Errorf (''Failed accepting incoming migration '' @ ''sink'' @ '' ''
                                  @ [CHR 0x22] @ connName @ [CHR 0x22] @ '' connection'') err), conns k)
            | Inr mc' \<Rightarrow> (Value (), before @ (connName, mc') # after))"
      unfolding secrets_def by blast
    then show "\<exists>connName mc before after.
               conns k = before @ (connName, mc) # after \<and> Secret mc = sec
             \<and> sec \<notin> set (map (\<lambda>(name, mc). Secret mc) before)
             \<and> migrationSink_Connect k r =
                 (case AcceptIncoming mc r of
                    Inl err \<Rightarrow>
                      (Failure (Errorf (''Failed accepting incoming migration sink ''
                                        @ [CHR 0x22] @ connName @ [CHR 0x22] @ '' connection'') err), k)
                  | Inr mc' \<Rightarrow> (Value (), k\<lparr>conns := before @ (connName, mc') # after\<rparr>))"
      using assms
      by (intro exI[of _ connName] exI[of _ mc] exI[of _ before] exI[of _ after])
         (simp add: migrationSink_Connect_def split: sum.splits)
  qed
  from 1 2 3 4 show ?thesis by blast
qed

theorem Connect_secret_exact_witness:
  "FormValue fsSecretRequest ''secret'' = ''s2'' \<and> ''s2'' \<noteq> []
   \<and> ''s2'' \<in> secrets sourceSession \<and> ''s2'' \<in> secrets sinkSession
   \<and> migrationSourceWs_Connect sourceSession fsSecretRequest
       = (Value (), sourceSession\<lparr>conns :=
            [(''control'', pendingConn ''s1''), (''fs'', establishedConn ''s2'')]\<rparr>)
   \<and> migrationSink_Connect sinkSession fsSecretRequest
       = (Value (), sinkSession\<lparr>conns :=
            [(''control'', pendingConn ''s1''), (''fs'', establishedConn ''s2'')]\<rparr>)
   \<and> FormValue prefixSecretRequest ''secret'' = ''s'' \<and> ''s'' \<noteq> []
   \<and> ''s'' \<notin> secrets sourceSession \<and> ''s'' \<notin> secrets sinkSession
   \<and> migrationSourceWs_Connect sourceSession prefixSecretRequest
       = (Failure (StatusErrorf StatusForbidden ''Invalid migration source secret''), sourceSession)
   \<and> migrationSink_Connect sinkSession prefixSecretRequest
       = (Failure (StatusErrorf StatusForbidden ''Invalid migration sink secret''), sinkSession)"
proof -
  have a: "FormValue fsSecretRequest ''secret'' = ''s2''"
    by (simp add: FormValue_def fsSecretRequest_def)
  have b: "FormValue prefixSecretRequest ''secret'' = ''s''"
    by (simp add: FormValue_def prefixSecretRequest_def)
  have c: "''s'' \<notin> secrets sourceSession" "''s'' \<notin> secrets sinkSession"
    "''s2'' \<in> secrets sourceSession" "''s2'' \<in> secrets sinkSession"
    by (simp_all add: secrets_def sourceSession_def sinkSession_def Secret_def pendingConn_def)
  have d: "migrationSourceWs_Connect sourceSession fsSecretRequest
       = (Value (), sourceSession\<lparr>conns :=
            [(''control'', pendingConn ''s1''), (''fs'', establishedConn ''s2'')]\<rparr>)"
    by (simp add: migrationSourceWs_Connect_def Let_def FormValue_def sourceSession_def Secret_def pendingConn_def
        AcceptIncoming_def fsSecretRequest_def establishedConn_def)
  have e: "migrationSink_Connect sinkSession fsSecretRequest
       = (Value (), sinkSession\<lparr>conns :=
            [(''control'', pendingConn ''s1''), (''fs'', establishedConn ''s2'')]\<rparr>)"
    by (simp add: migrationSink_Connect_def Let_def FormValue_def sinkSession_def Secret_def pendingConn_def
        AcceptIncoming_def fsSecretRequest_def establishedConn_def)
  show ?thesis
    using a b c d e
      Connect_secret_exact [of prefixSecretRequest "''s''" sourceSession sinkSession]
    by simp
qed

text \<open>
  C2 as stated fails: a request that presents the exact secret of the control entry but
  cannot be upgraded to a websocket establishes nothing; \<open>Connect\<close> returns an error, which
  is not a status error.
\<close>

theorem Connect_secret_iff_counterexample:
  "FormValue plainHttpRequest ''secret'' = ''s1'' \<and> ''s1'' \<noteq> []
   \<and> ''s1'' \<in> secrets sourceSession
   \<and> fst (migrationSourceWs_Connect sourceSession plainHttpRequest) \<noteq> Value ()
   \<and> status_of (fst (migrationSourceWs_Connect sourceSession plainHttpRequest)) = None
   \<and> snd (migrationSourceWs_Connect sourceSession plainHttpRequest) = sourceSession
   \<and> ''s1'' \<in> secrets sinkSession
   \<and> fst (migrationSink_Connect sinkSession plainHttpRequest) \<noteq> Value ()
   \<and> status_of (fst (migrationSink_Connect sinkSession plainHttpRequest)) = None
   \<and> snd (migrationSink_Connect sinkSession plainHttpRequest) = sinkSession"
  by (simp add: FormValue_def plainHttpRequest_def secrets_def sourceSession_def sinkSession_def
      Secret_def pendingConn_def migrationSourceWs_Connect_def migrationSink_Connect_def
      AcceptIncoming_def status_of_def)


lemma disconnected_control_ws_update:
  "map (\<lambda>(name, mc). disconnected mc) (conns (control_ws_update ws c))
     = map (\<lambda>(name, mc). disconnected mc) (conns c)"
  by (simp add: control_ws_update_def comp_def case_prod_unfold)

text \<open>
  C1, as amended. In a session whose control entry exists, \<open>sendControl err\<close> returns; when
  the control websocket is usable and open, the terminal status message for \<open>err\<close> is
  written to it. For a non-nil \<open>err\<close> the call then disconnects: every entry of the
  connection set is closed afterwards, whether or not the status could be sent. For
  \<open>err = nil\<close> no entry is disconnected.
\<close>

theorem sendControl_disconnects_on_error:
  assumes "map_of (conns c) SecretNameControl = Some mc"
  shows "fst (sendControl c err) = Value ()
       \<and> (err \<noteq> None \<longrightarrow> allClosed (snd (sendControl c err)))
       \<and> (err = None \<longrightarrow>
            map (\<lambda>(name, mc). disconnected mc) (conns (snd (sendControl c err)))
              = map (\<lambda>(name, mc). disconnected mc) (conns c))
       \<and> (\<forall>ws. WebSocket mc = Inr ws \<and> netOpen ws \<longrightarrow>
            (\<exists>mc' ws'. map_of (conns (snd (sendControl c err))) SecretNameControl = Some mc'
               \<and> conn mc' = Some ws'
               \<and> written ws' = written ws @ BinaryMessage (status_message err)
                    # (if err = None then [] else [CloseMessage CloseNormalClosure []])))"
proof -
  define c1 where "c1 = (case WebSocket mc of
                       Inr ws \<Rightarrow> control_ws_update (ProtoSendControl ws err) c
                     | Inl e \<Rightarrow> c)"
  have sc: "sendControl c err = (if err \<noteq> None then disconnect c1 else (Value (), c1))"
    using assms by (simp add: sendControl_def c1_def Let_def)
  have k1: "\<exists>mc1. map_of (conns c1) SecretNameControl = Some mc1"
    using assms map_of_control_ws_update[OF assms]
    by (auto simp: c1_def split: sum.splits)
  then obtain mc1 where mc1: "map_of (conns c1) SecretNameControl = Some mc1" by blast
  from disconnect_result [OF mc1] obtain c2 where
    d: "disconnect c1 = (Value (), c2\<lparr>conns := Close_range (conns c2)\<rparr>)"
    by blast
  have 1: "fst (sendControl c err) = Value ()"
    using sc d by simp
  have 2: "err \<noteq> None \<longrightarrow> allClosed (snd (sendControl c err))"
    using sc d by (simp add: allClosed_def closed_Close_range)
  have 3: "err = None \<longrightarrow>
            map (\<lambda>(name, mc). disconnected mc) (conns (snd (sendControl c err)))
              = map (\<lambda>(name, mc). disconnected mc) (conns c)"
    using sc by (auto simp: c1_def disconnected_control_ws_update split: sum.splits)
  have 4: "\<exists>mc' ws'. map_of (conns (snd (sendControl c err))) SecretNameControl = Some mc'
               \<and> conn mc' = Some ws'
               \<and> written ws' = written ws @ BinaryMessage (status_message err)
                    # (if err = None then [] else [CloseMessage CloseNormalClosure []])"
    if w: "WebSocket mc = Inr ws" and o: "netOpen ws" for ws
  proof -
    let ?ws1 = "ws\<lparr>written := written ws @ [BinaryMessage (status_message err)]\<rparr>"
    have p: "ProtoSendControl ws err = ?ws1"
      using o by (simp add: ProtoSendControl_def ProtoSend_def WriteMessage_def)
    have c1': "c1 = control_ws_update ?ws1 c"
      using w p by (simp add: c1_def)
    have m1: "map_of (conns c1) SecretNameControl = Some (mc\<lparr>conn := Some ?ws1\<rparr>)"
      unfolding c1' by (rule map_of_control_ws_update[OF assms])
    have nd: "\<not> disconnected mc"
      using w by (auto simp: WebSocket_def split: if_splits)
    show ?thesis
    proof (cases "err = None")
      case True
      then show ?thesis using sc m1 by simp
    next
      case False
      let ?ws2 = "?ws1\<lparr>written := written ?ws1 @ [CloseMessage CloseNormalClosure []]\<rparr>"
      let ?c2 = "control_ws_update ?ws2 c1"
      have ws1: "WebSocket (mc\<lparr>conn := Some ?ws1\<rparr>) = Inr ?ws1"
        using nd by (simp add: WebSocket_def)
      have dc: "disconnect c1 = (Value (), ?c2\<lparr>conns := Close_range (conns ?c2)\<rparr>)"
        using m1 ws1 o by (simp add: disconnect_def Let_def WriteMessage_def)
      have m2: "map_of (conns ?c2) SecretNameControl = Some (mc\<lparr>conn := Some ?ws1\<rparr>\<lparr>conn := Some ?ws2\<rparr>)"
        by (rule map_of_control_ws_update[OF m1])
      have "map_of (conns (snd (sendControl c err))) SecretNameControl
              = Some (Close (mc\<lparr>conn := Some ?ws1\<rparr>\<lparr>conn := Some ?ws2\<rparr>))"
        using sc False dc m2 by (simp add: map_of_Close_range)
      then show ?thesis
        using False by (simp add: Close_def)
    qed
  qed
  from 1 2 3 4 show ?thesis by blast
qed

theorem sendControl_disconnects_on_error_witness:
  "map_of (conns establishedSession) SecretNameControl = Some (establishedConn ''s1'')
   \<and> fst (sendControl establishedSession (Some (ErrorNew ''rsync failed''))) = Value ()
   \<and> allClosed (snd (sendControl establishedSession (Some (ErrorNew ''rsync failed''))))
   \<and> map (\<lambda>(name, mc). disconnected mc) (conns (snd (sendControl establishedSession None)))
       = [False, False]"
proof -
  have look: "map_of (conns establishedSession) SecretNameControl = Some (establishedConn ''s1'')"
    by (simp add: establishedSession_def session_def SecretNameControl_def)
  have d: "map (\<lambda>(name, mc). disconnected mc) (conns establishedSession) = [False, False]"
    by (simp add: establishedSession_def session_def establishedConn_def)
  show ?thesis
    using look d
      sendControl_disconnects_on_error [OF look, of "Some (ErrorNew ''rsync failed'')"]
      sendControl_disconnects_on_error [OF look, of None]
    by simp
qed

text \<open>
  C1 as stated fails for \<open>err = nil\<close>: on an established session, \<open>sendControl nil\<close> writes
  the success status and leaves both connections open.
\<close>

theorem sendControl_success_counterexample:
  "map_of (conns establishedSession) SecretNameControl = Some (establishedConn ''s1'')
   \<and> sendControl establishedSession None
       = (Value (),
          session [(''control'',
                    \<lparr>secret = ''s1'',
                     conn = Some \<lparr>written = [BinaryMessage (MigrationControl True [])],
                                  unread = [], netOpen = True\<rparr>,
                     disconnected = False\<rparr>),
                   (''fs'', establishedConn ''s2'')])
   \<and> \<not> allClosed (snd (sendControl establishedSession None))
   \<and> map (\<lambda>(name, mc). closed mc) (conns (snd (sendControl establishedSession None)))
       = [False, False]"
  by (simp add: establishedSession_def session_def SecretNameControl_def establishedConn_def
      sendControl_def WebSocket_def freshWs_def control_ws_update_def ProtoSendControl_def
      ProtoSend_def WriteMessage_def status_message_def allClosed_def closed_def)

section \<open>Negotiation of the migration type\<close>

lemma intersect_offers_Nil: "intersect_offers source sink = [] \<longleftrightarrow> set source \<inter> set sink = {}"
  by (auto simp: intersect_offers_def filter_empty_conv)

lemma intersect_offers_first:
  "(\<exists>ts. intersect_offers source sink = t # ts)
     \<longleftrightarrow> (\<exists>i<length source. source ! i = t \<and> t \<in> set sink \<and> (\<forall>j<i. source ! j \<notin> set sink))"
proof (induction source)
  case Nil
  then show ?case by (simp add: intersect_offers_def)
next
  case (Cons a source)
  show ?case
  proof (cases "a \<in> set sink")
    case True
    have "(\<exists>i<length (a # source). (a # source) ! i = t \<and> t \<in> set sink
             \<and> (\<forall>j<i. (a # source) ! j \<notin> set sink)) \<longleftrightarrow> a = t"
    proof
      assume "\<exists>i<length (a # source). (a # source) ! i = t \<and> t \<in> set sink
             \<and> (\<forall>j<i. (a # source) ! j \<notin> set sink)"
      then obtain i where i: "(a # source) ! i = t" "\<forall>j<i. (a # source) ! j \<notin> set sink" by blast
      have "i = 0"
      proof (rule ccontr)
        assume "i \<noteq> 0"
        then have "0 < i" by simp
        with i(2) have "(a # source) ! 0 \<notin> set sink" by blast
        with True show False by simp
      qed
      with i(1) show "a = t" by simp
    next
      assume "a = t"
      with True show "\<exists>i<length (a # source). (a # source) ! i = t \<and> t \<in> set sink
             \<and> (\<forall>j<i. (a # source) ! j \<notin> set sink)"
        by (intro exI[of _ 0]) simp
    qed
    with True show ?thesis by (auto simp: intersect_offers_def)
  next
    case False
    have "(\<exists>i<length (a # source). (a # source) ! i = t \<and> t \<in> set sink
             \<and> (\<forall>j<i. (a # source) ! j \<notin> set sink))
          \<longleftrightarrow> (\<exists>i<length source. source ! i = t \<and> t \<in> set sink \<and> (\<forall>j<i. source ! j \<notin> set sink))"
      (is "?L \<longleftrightarrow> ?R")
    proof
      assume ?L
      then obtain i where i: "i < length (a # source)" "(a # source) ! i = t" "t \<in> set sink"
        "\<forall>j<i. (a # source) ! j \<notin> set sink" by blast
      with False obtain k where k: "i = Suc k" by (cases i) auto
      have "\<forall>j<k. source ! j \<notin> set sink"
      proof (intro allI impI)
        fix j assume "j < k"
        then have "Suc j < i" using k by simp
        with i(4) have "(a # source) ! Suc j \<notin> set sink" by blast
        then show "source ! j \<notin> set sink" by simp
      qed
      with i k show ?R by (intro exI[of _ k]) simp
    next
      assume ?R
      then obtain i where i: "i < length source" "source ! i = t" "t \<in> set sink"
        "\<forall>j<i. source ! j \<notin> set sink" by blast
      have "\<forall>j<Suc i. (a # source) ! j \<notin> set sink"
      proof (intro allI impI)
        fix j assume "j < Suc i"
        then show "(a # source) ! j \<notin> set sink"
          using False i(4) by (cases j) auto
      qed
      with i show ?L by (intro exI[of _ "Suc i"]) simp
    qed
    moreover have "intersect_offers (a # source) sink = intersect_offers source sink"
      using False by (simp add: intersect_offers_def)
    ultimately show ?thesis using Cons.IH by simp
  qed
qed

text \<open>
  C4. For every pair of ordered lists of migration types offered by source and sink,
  negotiation yields the first entry of the source's list that is also in the sink's list
  (source \<open>[A, B, C]\<close> against sink \<open>[C, B]\<close> yields \<open>B\<close>); when the lists share no entry it
  fails with the no-common-transfer-type error, and no payload transfer is started.
\<close>

theorem negotiate_first_common:
  "(negotiate source sink = Value t \<longleftrightarrow>
      (\<exists>i<length source. source ! i = t \<and> t \<in> set sink \<and> (\<forall>j<i. source ! j \<notin> set sink)))
   \<and> (negotiate source sink = Failure (ErrorNew ''No common transfer type'')
        \<longleftrightarrow> set source \<inter> set sink = {})
   \<and> (set source \<inter> set sink = {} \<longrightarrow>
        negotiated_transfer source sink payload
          = (Failure (ErrorNew ''No common transfer type''), []))
   \<and> (A \<noteq> B \<and> A \<noteq> C \<and> B \<noteq> C \<longrightarrow> negotiate [A, B, C] [C, B] = Value B)"
proof -
  have 1: "negotiate source sink = Value t \<longleftrightarrow> (\<exists>ts. intersect_offers source sink = t # ts)"
    by (auto simp: negotiate_def split: list.splits)
  have 2: "negotiate source sink = Failure (ErrorNew ''No common transfer type'')
        \<longleftrightarrow> intersect_offers source sink = []"
    by (auto simp: negotiate_def split: list.splits)
  have 3: "set source \<inter> set sink = {} \<longrightarrow>
        negotiated_transfer source sink payload
          = (Failure (ErrorNew ''No common transfer type''), [])"
    using 2 by (auto simp: negotiated_transfer_def intersect_offers_Nil)
  have 4: "A \<noteq> B \<and> A \<noteq> C \<and> B \<noteq> C \<longrightarrow> negotiate [A, B, C] [C, B] = Value B"
    by (simp add: negotiate_def intersect_offers_def)
  show ?thesis
    using 1 2 3 4 intersect_offers_first [of source sink t] intersect_offers_Nil [of source sink]
    by simp
qed

theorem negotiate_first_common_witness:
  "zfs \<noteq> btrfs \<and> zfs \<noteq> rsync \<and> btrfs \<noteq> rsync
   \<and> negotiate [zfs, btrfs, rsync] [rsync, btrfs] = Value btrfs
   \<and> [zfs, btrfs, rsync] ! 1 = btrfs \<and> btrfs \<in> set [rsync, btrfs]
   \<and> [zfs, btrfs, rsync] ! 0 \<notin> set [rsync, btrfs]
   \<and> set [zfs] \<inter> set [rsync, btrfs] = {}
   \<and> negotiate [zfs] [rsync, btrfs] = Failure (ErrorNew ''No common transfer type'')
   \<and> negotiated_transfer [zfs] [rsync, btrfs] ''payload''
       = (Failure (ErrorNew ''No common transfer type''), [])"
proof -
  have d: "zfs \<noteq> btrfs \<and> zfs \<noteq> rsync \<and> btrfs \<noteq> rsync"
    by (simp add: zfs_def btrfs_def rsync_def)
  have e: "set [zfs] \<inter> set [rsync, btrfs] = {}"
    using d by auto
  show ?thesis
    using d e
      negotiate_first_common [of "[zfs, btrfs, rsync]" "[rsync, btrfs]" btrfs "''payload''" zfs btrfs rsync]
      negotiate_first_common [of "[zfs]" "[rsync, btrfs]" btrfs "''payload''" zfs btrfs rsync]
    by simp
qed

section \<open>The publish command: force, stop, restart and the ephemeral flag\<close>

lemma calls_logged: "calls (logged c w) = calls w @ [(c, next_err w)]"
  by (simp add: logged_def)

lemma inst_logged:
  "instStatusCode (logged c w) = instStatusCode w" "instEphemeral (logged c w) = instEphemeral w"
  by (simp_all add: logged_def)

lemma calls_effect: "calls (effect c w) = calls w"
  by (simp add: effect_def split: call.splits operation.splits)

lemma effect_image: "\<not> instance_call c \<Longrightarrow> effect c w = w"
  by (cases c rule: instance_call.cases) (simp_all add: effect_def)

lemma image_only_refl: "image_only w w"
  by (simp add: image_only_def)

lemma image_only_trans: "image_only w w1 \<Longrightarrow> image_only w1 w2 \<Longrightarrow> image_only w w2"
  by (auto simp: image_only_def)

lemma image_only_invoke: "\<not> instance_call c \<Longrightarrow> image_only w (snd (invoke c w))"
  by (simp add: invoke_def Let_def effect_image image_only_def calls_logged inst_logged)

lemma quiet_ret: "quiet (ret x)"
  by (simp add: quiet_def ret_def image_only_refl)

lemma quiet_throw: "quiet (throw e)"
  by (simp add: quiet_def throw_def image_only_refl)

lemma quiet_lift: "quiet (lift res)"
  by (simp add: quiet_def lift_def image_only_refl)

lemma quiet_andThen: "quiet m \<Longrightarrow> (\<And>x. quiet (f x)) \<Longrightarrow> quiet (andThen m f)"
  unfolding quiet_def andThen_def
proof (intro allI)
  fix w
  assume m: "\<forall>w. image_only w (snd (m w))" and f: "\<And>x. \<forall>w. image_only w (snd (f x w))"
  obtain res w' where mw: "m w = (res, w')" by (cases "m w")
  with m have 1: "image_only w w'" by (metis snd_conv)
  show "image_only w (snd (case m w of (Value x, w') \<Rightarrow> f x w'
                           | (Failure e, w') \<Rightarrow> (Failure e, w') | (Panic, w') \<Rightarrow> (Panic, w')))"
  proof (cases res)
    case (Value x)
    from f have "image_only w' (snd (f x w'))" by blast
    with 1 mw Value show ?thesis by (simp add: image_only_trans[OF 1])
  qed (use mw 1 in simp_all)
qed

lemma quiet_onError: "quiet m \<Longrightarrow> quiet (onError g m)"
  unfolding quiet_def onError_def
  by (auto split: prod.splits result.splits) (metis snd_conv)+

lemma quiet_deferred: "quiet m \<Longrightarrow> (\<And>w. image_only w (d w)) \<Longrightarrow> quiet (deferred d m)"
  unfolding quiet_def deferred_def
  by (auto split: prod.splits) (metis image_only_trans snd_conv)

lemma quiet_do_call: "\<not> instance_call c \<Longrightarrow> quiet (do_call c)"
  unfolding quiet_def do_call_def
  using image_only_invoke [of c]
  by (auto split: prod.splits option.splits) (metis snd_conv)+

lemma quiet_op_fingerprint: "quiet op_fingerprint"
  by (simp add: quiet_def op_fingerprint_def image_only_refl split: option.splits)

lemma quiet_d_GetCommonAliases: "quiet (d_GetCommonAliases names)"
  unfolding d_GetCommonAliases_def
  by (rule quiet_andThen, rule quiet_do_call, simp) (simp add: quiet_def image_only_refl)

lemma quiet_if: "(b \<Longrightarrow> quiet m) \<Longrightarrow> (\<not> b \<Longrightarrow> quiet n) \<Longrightarrow> quiet (if b then m else n)"
  by simp

lemma quiet_case_sum:
  "(\<And>e. quiet (f e)) \<Longrightarrow> (\<And>t. quiet (g t)) \<Longrightarrow> quiet (case x of Inl e \<Rightarrow> f e | Inr t \<Rightarrow> g t)"
  by (cases x) simp_all

lemmas quiet_rules = quiet_andThen quiet_lift quiet_ret quiet_throw quiet_onError
  quiet_d_GetCommonAliases quiet_op_fingerprint quiet_if quiet_case_sum quiet_deferred

lemma quiet_Run_publish: "quiet (Run_publish c en args l)"
  unfolding Run_publish_def Let_def
  by (intro quiet_rules quiet_do_call image_only_invoke) simp_all

lemma do_call_eq:
  "do_call c w =
     (case next_err w of
        None \<Rightarrow> (Value (), effect c (logged c w))
      | Some e \<Rightarrow> (Failure e, logged c w))"
  by (simp add: do_call_def invoke_def Let_def split: option.splits)

lemma effect_instance_requests [simp]:
  "effect (GetInstance name) w = w"
  "effect (UpdateInstance name e) w = w"
  "effect (UpdateInstanceState name req) w = w"
  by (simp_all add: effect_def)

lemma effect_Wait_Ephemeral [simp]:
  "instEphemeral (effect (Wait (OpUpdateInstance e)) w) = e"
  "instStatusCode (effect (Wait (OpUpdateInstance e)) w) = instStatusCode w"
  by (simp_all add: effect_def)

lemma effect_Wait_State [simp]:
  "instEphemeral (effect (Wait (OpUpdateInstanceState req)) w) = instEphemeral w"
  "instStatusCode (effect (Wait (OpUpdateInstanceState stopReq)) w) = Stopped"
  "instStatusCode (effect (Wait (OpUpdateInstanceState startReq)) w) = Running"
  by (simp_all add: effect_def stopReq_def startReq_def)

lemma stopReq_neq_startReq [simp]: "stopReq \<noteq> startReq" "startReq \<noteq> stopReq"
  by (simp_all add: stopReq_def startReq_def)

lemma Run_stop_cases:
  assumes "calls w = []" and "Run_stop c name w = (r, w1)"
  shows "(case r of
            Value (stopped, eph) \<Rightarrow>
              eph = instEphemeral w
              \<and> (if stopped then
                    flagForce c \<and> instStatusCode w \<noteq> 0 \<and> instStatusCode w \<noteq> Stopped
                    \<and> calls w1 = stop_log name eph
                    \<and> instStatusCode w1 = Stopped \<and> \<not> instEphemeral w1
                  else
                    (instStatusCode w = 0 \<or> instStatusCode w = Stopped)
                    \<and> calls w1 = [(GetInstance name, None)]
                    \<and> instStatusCode w1 = instStatusCode w \<and> instEphemeral w1 = instEphemeral w)
          | Failure e \<Rightarrow> \<not> stop_succeeded (calls w1)
          | Panic \<Rightarrow> False)"
  using assms
  by (auto simp: Run_stop_def s_GetInstance_def andThen_def do_call_eq onError_def ret_def
      throw_def Let_def calls_logged calls_effect inst_logged stop_log_def stop_succeeded_def
      split: option.splits if_splits)

lemma Run_restart_log:
  "\<exists>es. calls (Run_restart name w) = calls w @ es \<and> restart_attempt name es
        \<and> instEphemeral (Run_restart name w) = instEphemeral w
        \<and> (list_all (\<lambda>e. snd e = None) es \<longrightarrow> instStatusCode (Run_restart name w) = Running)"
  by (cases "next_err w"; cases "next_err (logged (UpdateInstanceState name startReq) w)")
     (simp_all add: Run_restart_def invoke_def Let_def calls_logged calls_effect inst_logged)

lemma Run_restore_cases:
  assumes "Run_restore name eph w = (r, w2)"
  shows "\<exists>es. calls w2 = calls w @ es \<and> instStatusCode w2 = instStatusCode w
          \<and> r \<noteq> Panic
          \<and> (if eph then
                (\<exists>e. hd es = (GetInstance name, e)) \<and> es \<noteq> []
                \<and> list_all (\<lambda>e. fst e \<in> {GetInstance name, UpdateInstance name True,
                                           Wait (OpUpdateInstance True)}) es
                \<and> restore_attempt name es
                \<and> (case r of Value u \<Rightarrow> snd (last es) = None
                     | Failure e \<Rightarrow> snd (last es) = Some e
                     | Panic \<Rightarrow> False)
                \<and> (if r = Value () then instEphemeral w2
                     \<and> (Wait (OpUpdateInstance True), None) \<in> set es
                    else instEphemeral w2 = instEphemeral w
                     \<and> (Wait (OpUpdateInstance True), None) \<notin> set es)
              else es = [] \<and> r = Value () \<and> instEphemeral w2 = instEphemeral w)"
  using assms
  by (auto simp: Run_restore_def s_GetInstance_def andThen_def do_call_eq ret_def
      calls_logged calls_effect inst_logged split: option.splits if_splits)

lemma Run_publish_image_only:
  "Run_publish c en args l w = (r, w') \<Longrightarrow> image_only w w'"
  using quiet_Run_publish [of c en args l] by (metis quiet_def snd_conv)

lemma image_only_instance_call:
  assumes "image_only w w'" and "instance_call c"
  shows "(c, r) \<in> set (calls w') \<longleftrightarrow> (c, r) \<in> set (calls w)"
proof -
  from assms(1) obtain es where es: "calls w' = calls w @ es"
    "\<forall>e\<in>set es. \<not> instance_call (fst e)"
    by (auto simp: image_only_def list_all_iff)
  from es(2) assms(2) have "(c, r) \<notin> set es" by force
  with es(1) show ?thesis by simp
qed

lemma image_only_stop_succeeded:
  "image_only w w' \<Longrightarrow> stop_succeeded (calls w') = stop_succeeded (calls w)"
  by (simp add: stop_succeeded_def image_only_instance_call)

lemma Run_forced_shape:
  assumes "calls w = []" and "Run c en args w = (res, w')" and "stop_succeeded (calls w')"
  shows "\<exists>l eph w1 r2 w2 w3.
           Run_args en args = Value (Some l) \<and> \<not> IsSnapshot en (cName l)
         \<and> Run_stop c (cName l) w = (Value (True, eph), w1)
         \<and> Run_restore (cName l) eph w1 = (r2, w2)
         \<and> (if r2 = Value () then Run_publish c en args l w2 = (res, w3)
             else w3 = w2 \<and> res = r2)
         \<and> w' = Run_restart (cName l) w3"
proof (cases "Run_args en args")
  case Panic
  with assms show ?thesis by (simp add: Run_def stop_succeeded_def)
next
  case (Failure e)
  with assms show ?thesis by (auto simp: Run_def stop_succeeded_def)
next
  case (Value lo)
  show ?thesis
  proof (cases lo)
    case None
    with Value assms show ?thesis by (auto simp: Run_def stop_succeeded_def)
  next
    case (Some l)
    show ?thesis
    proof (cases "IsSnapshot en (cName l)")
      case True
      with Value Some assms have "Run_publish c en args l w = (res, w')"
        by (simp add: Run_def)
      from image_only_stop_succeeded[OF Run_publish_image_only[OF this]] assms(1) assms(3)
      show ?thesis
        by (simp add: stop_succeeded_def)
    next
      case False
      obtain r1 w1 where s: "Run_stop c (cName l) w = (r1, w1)"
        by (cases "Run_stop c (cName l) w")
      note sc = Run_stop_cases[OF assms(1) s]
      show ?thesis
      proof (cases r1)
        case Panic
        with sc show ?thesis by simp
      next
        case (Failure e)
        with sc Value Some False s assms show ?thesis
          by (simp add: Run_def)
      next
        case (Value se)
        obtain stopped eph where se: "se = (stopped, eph)" by (cases se)
        show ?thesis
        proof (cases stopped)
          case False
          with sc \<open>r1 = Value se\<close> se have c1: "calls w1 = [(GetInstance (cName l), None)]"
            by simp
          from \<open>Run_args en args = Value lo\<close> Some \<open>\<not> IsSnapshot en (cName l)\<close> s
            \<open>r1 = Value se\<close> se False assms(2)
          have "Run_publish c en args l w1 = (res, w')"
            by (simp add: Run_def)
          from image_only_stop_succeeded[OF Run_publish_image_only[OF this]] c1 assms(3)
          show ?thesis
            by (simp add: stop_succeeded_def)
        next
          case True
          obtain r2 w2 where r: "Run_restore (cName l) eph w1 = (r2, w2)"
            by (cases "Run_restore (cName l) eph w1")
          from Run_restore_cases[OF r] have np: "r2 \<noteq> Panic" by blast
          from \<open>Run_args en args = Value lo\<close> Some \<open>\<not> IsSnapshot en (cName l)\<close> s
            \<open>r1 = Value se\<close> se True assms(2)
          have run: "deferred (Run_restart (cName l))
                    (andThen (Run_restore (cName l) eph)
                       (\<lambda>_. Run_publish c en args l)) w1 = (res, w')"
            by (simp add: Run_def)
          show ?thesis
          proof (cases "r2 = Value ()")
            case True
            obtain r3 w3 where p: "Run_publish c en args l w2 = (r3, w3)"
              by (cases "Run_publish c en args l w2")
            with run r True have "res = r3" "w' = Run_restart (cName l) w3"
              by (simp_all add: deferred_def andThen_def)
            with \<open>Run_args en args = Value lo\<close> Some \<open>\<not> IsSnapshot en (cName l)\<close> s
              \<open>r1 = Value se\<close> se \<open>stopped\<close> r True p
            show ?thesis by auto
          next
            case False
            with np obtain e where e: "r2 = Failure e" by (cases r2) auto
            with run r have "res = r2" "w' = Run_restart (cName l) w2"
              by (simp_all add: deferred_def andThen_def)
            with \<open>Run_args en args = Value lo\<close> Some \<open>\<not> IsSnapshot en (cName l)\<close> s
              \<open>r1 = Value se\<close> se \<open>stopped\<close> r False
            show ?thesis by auto
          qed
        qed
      qed
    qed
  qed
qed

text \<open>
  C5. In every run of \<open>Run\<close> in which the stop of the instance has succeeded (which happens
  only for a running instance and with \<open>--force\<close>), whatever \<open>Run\<close> returns, success or any
  later failure, the log ends with the restart attempt of the deferred closure: the start
  request for the instance that was stopped, followed by the \<open>Wait\<close> on it when the request
  was accepted. When both succeed the instance is running again.
\<close>

theorem Run_restarts_after_stop:
  assumes "calls w = []" and "Run c en args w = (res, w')" and "stop_succeeded (calls w')"
  shows "flagForce c \<and> instStatusCode w \<noteq> 0 \<and> instStatusCode w \<noteq> Stopped
       \<and> (\<exists>name before after.
             calls w' = before @ after
           \<and> (UpdateInstanceState name stopReq, None) \<in> set before
           \<and> stop_succeeded before
           \<and> restart_attempt name after
           \<and> (list_all (\<lambda>e. snd e = None) after \<longrightarrow> instStatusCode w' = Running))"
proof -
  from Run_forced_shape[OF assms] obtain l eph w1 r2 w2 w3 where
    s: "Run_stop c (cName l) w = (Value (True, eph), w1)"
    and r: "Run_restore (cName l) eph w1 = (r2, w2)"
    and p: "if r2 = Value () then Run_publish c en args l w2 = (res, w3) else w3 = w2 \<and> res = r2"
    and w': "w' = Run_restart (cName l) w3"
    by blast
  from Run_stop_cases[OF assms(1) s] have
    f: "flagForce c \<and> instStatusCode w \<noteq> 0 \<and> instStatusCode w \<noteq> Stopped"
    and c1: "calls w1 = stop_log (cName l) eph"
    by simp_all
  from Run_restore_cases[OF r] obtain es where c2: "calls w2 = calls w1 @ es" by blast
  have "\<exists>es'. calls w3 = calls w2 @ es'"
  proof (cases "r2 = Value ()")
    case True
    with p have "Run_publish c en args l w2 = (res, w3)" by simp
    from Run_publish_image_only[OF this] show ?thesis by (auto simp: image_only_def)
  next
    case False
    with p show ?thesis by simp
  qed
  then obtain es' where c3: "calls w3 = calls w2 @ es'" by blast
  from Run_restart_log[of "cName l" w3] w' obtain after where
    a: "calls w' = calls w3 @ after" "restart_attempt (cName l) after"
       "list_all (\<lambda>e. snd e = None) after \<longrightarrow> instStatusCode w' = Running"
    by blast
  have b: "(UpdateInstanceState (cName l) stopReq, None) \<in> set (calls w3)"
    "stop_succeeded (calls w3)"
    using c1 c2 c3 by (simp_all add: stop_log_def stop_succeeded_def)
  from f a b show ?thesis by blast
qed

lemma Run_stop_without_force:
  assumes "\<not> flagForce c" and "instStatusCode w \<noteq> 0" and "instStatusCode w \<noteq> Stopped"
  shows "Run_stop c name w =
     (case next_err w of
        None \<Rightarrow> (Failure (ErrorNew ''The instance is currently running. Use --force to have it stopped and restarted''),
                 logged (GetInstance name) w)
      | Some e \<Rightarrow> (Failure e, logged (GetInstance name) w))"
  using assms
  by (simp add: Run_stop_def s_GetInstance_def andThen_def do_call_eq throw_def Let_def
      inst_logged split: option.splits)

text \<open>
  C9. When the instance is running, \<open>--force\<close> is not given and \<open>Run\<close> has read the instance,
  \<open>Run\<close> returns the error that tells to use \<open>--force\<close>, and nothing was modified: the only
  request made is the read of the instance, so the instance is not stopped, its ephemeral
  flag is not changed and no image is created.
\<close>

theorem Run_running_without_force:
  assumes "calls w = []" and "\<not> flagForce c"
    and "instStatusCode w \<noteq> 0" and "instStatusCode w \<noteq> Stopped"
    and "(GetInstance name, None) \<in> set (calls (snd (Run c en args w)))"
  shows "Run c en args w =
     (Failure (ErrorNew ''The instance is currently running. Use --force to have it stopped and restarted''),
      w\<lparr>calls := [(GetInstance name, None)], outcomes := tl (outcomes w)\<rparr>)"
proof (cases "Run_args en args")
  case Panic
  with assms show ?thesis by (simp add: Run_def)
next
  case (Failure e)
  with assms show ?thesis by (simp add: Run_def)
next
  case (Value lo)
  show ?thesis
  proof (cases lo)
    case None
    with Value assms show ?thesis by (simp add: Run_def)
  next
    case (Some l)
    show ?thesis
    proof (cases "IsSnapshot en (cName l)")
      case True
      with Value Some have "Run c en args w = Run_publish c en args l w"
        by (simp add: Run_def)
      then have "image_only w (snd (Run c en args w))"
        using quiet_Run_publish [of c en args l] by (simp add: quiet_def)
      from image_only_instance_call[OF this, of "GetInstance name" None] assms(1) assms(5)
      show ?thesis by simp
    next
      case False
      note st = Run_stop_without_force[OF assms(2) assms(3) assms(4), of "cName l"]
      show ?thesis
      proof (cases "next_err w")
        case None
        with st Value Some False have run: "Run c en args w =
          (Failure (ErrorNew ''The instance is currently running. Use --force to have it stopped and restarted''),
           logged (GetInstance (cName l)) w)"
          by (simp add: Run_def)
        with assms(1) assms(5) None have "name = cName l"
          by (simp add: calls_logged)
        with run assms(1) None show ?thesis
          by (simp add: logged_def)
      next
        case (Some e)
        with st Value \<open>lo = Some l\<close> False have "Run c en args w =
          (Failure e, logged (GetInstance (cName l)) w)"
          by (simp add: Run_def)
        with assms(1) assms(5) Some show ?thesis
          by (simp add: calls_logged)
      qed
    qed
  qed
qed

text \<open>
  C6, as amended. When a running, ephemeral instance is stopped by \<open>Run\<close>, the log begins
  with the read of the instance, the clearing of the ephemeral flag and the \<open>Wait\<close> on it,
  then the stop and the \<open>Wait\<close> on it; the restoring of the flag is attempted right after
  the stop, before any image request and before the restart, and it is attempted once: the
  read of the instance, the update that sets the flag and the \<open>Wait\<close> on it, up to the first
  of them that fails. The flag is set again at the end of the run, on the successful and on
  every failing path, exactly when the restoring itself succeeded; when it failed, \<open>Run\<close>
  returns the error of the request that failed, only the restart follows, and the flag
  stays cleared.
\<close>

theorem Run_ephemeral_flag:
  assumes "calls w = []" and "instEphemeral w"
    and "Run c en args w = (res, w')" and "stop_succeeded (calls w')"
  shows "\<exists>name es rest.
           calls w' = stop_log name True @ es @ rest
         \<and> es \<noteq> []
         \<and> list_all (\<lambda>e. fst e \<in> {GetInstance name, UpdateInstance name True,
                                    Wait (OpUpdateInstance True)}) es
         \<and> list_all (\<lambda>e. fst e \<noteq> Wait (OpUpdateInstance True)) rest
         \<and> restore_attempt name es
         \<and> (instEphemeral w' \<longleftrightarrow> (Wait (OpUpdateInstance True), None) \<in> set es)
         \<and> (instEphemeral w' \<longleftrightarrow> snd (last es) = None)
         \<and> ((Wait (OpUpdateInstance True), None) \<notin> set es \<longrightarrow>
               res \<noteq> Value () \<and> restart_attempt name rest
             \<and> (\<exists>err. snd (last es) = Some err \<and> res = Failure err))"
proof -
  from Run_forced_shape[OF assms(1) assms(3) assms(4)] obtain l eph w1 r2 w2 w3 where
    s: "Run_stop c (cName l) w = (Value (True, eph), w1)"
    and r: "Run_restore (cName l) eph w1 = (r2, w2)"
    and p: "if r2 = Value () then Run_publish c en args l w2 = (res, w3) else w3 = w2 \<and> res = r2"
    and w': "w' = Run_restart (cName l) w3"
    by blast
  from Run_stop_cases[OF assms(1) s] assms(2) have eph: "eph"
    and c1: "calls w1 = stop_log (cName l) True" and e1: "\<not> instEphemeral w1"
    by simp_all
  from Run_restore_cases[OF r] eph obtain es where
    c2: "calls w2 = calls w1 @ es" and ne: "es \<noteq> []"
    and la: "list_all (\<lambda>e. fst e \<in> {GetInstance (cName l), UpdateInstance (cName l) True,
                                           Wait (OpUpdateInstance True)}) es"
    and at: "restore_attempt (cName l) es"
    and lst: "case r2 of Value u \<Rightarrow> snd (last es) = None
              | Failure e \<Rightarrow> snd (last es) = Some e | Panic \<Rightarrow> False"
    and ok: "r2 = Value () \<longrightarrow> instEphemeral w2 \<and> (Wait (OpUpdateInstance True), None) \<in> set es"
    and ko: "r2 \<noteq> Value () \<longrightarrow> instEphemeral w2 = instEphemeral w1
                \<and> (Wait (OpUpdateInstance True), None) \<notin> set es"
    by (auto split: if_splits)
  from Run_restart_log[of "cName l" w3] w' obtain after where
    a: "calls w' = calls w3 @ after" "restart_attempt (cName l) after"
       "instEphemeral w' = instEphemeral w3"
    by blast
  have ra: "list_all (\<lambda>e. fst e \<noteq> Wait (OpUpdateInstance True)) after"
    using a(2) by (cases "(cName l, after)" rule: restart_attempt.cases) auto
  show ?thesis
  proof (cases "r2 = Value ()")
    case True
    with p have "Run_publish c en args l w2 = (res, w3)" by simp
    from Run_publish_image_only[OF this] obtain es' where
      c3: "calls w3 = calls w2 @ es'" "list_all (\<lambda>e. \<not> instance_call (fst e)) es'"
      "instEphemeral w3 = instEphemeral w2"
      by (auto simp: image_only_def)
    have "list_all (\<lambda>e. fst e \<noteq> Wait (OpUpdateInstance True)) es'"
      using c3(2) by (auto simp: list_all_iff)
    with ra have "list_all (\<lambda>e. fst e \<noteq> Wait (OpUpdateInstance True)) (es' @ after)"
      by simp
    moreover have "calls w' = stop_log (cName l) True @ es @ (es' @ after)"
      using a(1) c3(1) c2 c1 by simp
    moreover have "instEphemeral w' \<longleftrightarrow> (Wait (OpUpdateInstance True), None) \<in> set es"
      using a(3) c3(3) ok True by simp
    moreover have "(Wait (OpUpdateInstance True), None) \<in> set es"
      using ok True by simp
    moreover have "snd (last es) = None"
      using lst True by simp
    ultimately show ?thesis using ne la at
      by (intro exI[of _ "cName l"] exI[of _ es] exI[of _ "es' @ after"]) simp
  next
    case False
    with p have w3: "w3 = w2" "res = r2" by simp_all
    from lst False obtain err where err: "r2 = Failure err" "snd (last es) = Some err"
      by (cases r2) auto
    have "calls w' = stop_log (cName l) True @ es @ after"
      using a(1) w3 c2 c1 by simp
    moreover have "instEphemeral w' \<longleftrightarrow> (Wait (OpUpdateInstance True), None) \<in> set es"
      using a(3) w3 ko e1 False by simp
    moreover have "instEphemeral w' \<longleftrightarrow> snd (last es) = None"
      using a(3) w3 ko e1 False err by simp
    moreover have "res \<noteq> Value ()" using w3 False by simp
    moreover have "\<exists>err. snd (last es) = Some err \<and> res = Failure err"
      using err w3 by simp
    ultimately show ?thesis using ne la ra a(2) at
      by (intro exI[of _ "cName l"] exI[of _ es] exI[of _ after]) simp
  qed
qed

theorem Run_restarts_after_stop_witness:
  "calls (runningPlain [None, None, None, None, Some (ErrorNew ''disk full'')]) = []
   \<and> fst (Run (publishCmd True) localEnv [''c1'']
            (runningPlain [None, None, None, None, Some (ErrorNew ''disk full'')]))
       = Failure (ErrorNew ''disk full'')
   \<and> stop_succeeded (calls (snd (Run (publishCmd True) localEnv [''c1'']
            (runningPlain [None, None, None, None, Some (ErrorNew ''disk full'')]))))
   \<and> flagForce (publishCmd True)
   \<and> drop 5 (calls (snd (Run (publishCmd True) localEnv [''c1'']
            (runningPlain [None, None, None, None, Some (ErrorNew ''disk full'')]))))
       = [(UpdateInstanceState ''c1'' startReq, None), (Wait (OpUpdateInstanceState startReq), None)]
   \<and> restart_attempt ''c1''
        [(UpdateInstanceState ''c1'' startReq, None), (Wait (OpUpdateInstanceState startReq), None)]
   \<and> instStatusCode (snd (Run (publishCmd True) localEnv [''c1'']
            (runningPlain [None, None, None, None, Some (ErrorNew ''disk full'')]))) = Running"
proof -
  let ?w = "runningPlain [None, None, None, None, Some (ErrorNew ''disk full'')]"
  have run: "Run (publishCmd True) localEnv [''c1''] ?w =
     (Failure (ErrorNew ''disk full''),
      \<lparr>instStatusCode = Running, instEphemeral = False, targetAliases = [],
       opFingerprint = Some ''abc123'',
       calls = stop_log ''c1'' False
         @ [(GetCommonAliases [''web''], None),
            (CreateImage \<lparr>Source = \<lparr>Type = ''instance'', Name = ''c1''\<rparr>,
               CompressionAlgorithm = [], Properties = None, Public = False,
               ExpiresAt = None, Format = ''unified''\<rparr>, Some (ErrorNew ''disk full'')),
            (UpdateInstanceState ''c1'' startReq, None),
            (Wait (OpUpdateInstanceState startReq), None)],
       outcomes = []\<rparr>)"
    by code_simp
  have h1: "calls ?w = []" by (simp add: runningPlain_def)
  have h3: "stop_succeeded (calls (snd (Run (publishCmd True) localEnv [''c1''] ?w)))"
    unfolding run by (simp add: stop_succeeded_def stop_log_def)
  have r: "restart_attempt ''c1''
        [(UpdateInstanceState ''c1'' startReq, None), (Wait (OpUpdateInstanceState startReq), None)]"
    by simp
  from Run_restarts_after_stop [OF h1 prod.collapse [symmetric] h3]
  have f: "flagForce (publishCmd True)" by blast
  show ?thesis
    using h1 h3 r f unfolding run by (simp add: stop_log_def)
qed

theorem Run_running_without_force_witness:
  "calls (runningEphemeral []) = [] \<and> \<not> flagForce (publishCmd False)
   \<and> instStatusCode (runningEphemeral []) \<noteq> 0 \<and> instStatusCode (runningEphemeral []) \<noteq> Stopped
   \<and> (GetInstance ''c1'', None)
        \<in> set (calls (snd (Run (publishCmd False) localEnv [''c1''] (runningEphemeral []))))
   \<and> Run (publishCmd False) localEnv [''c1''] (runningEphemeral []) =
       (Failure (ErrorNew ''The instance is currently running. Use --force to have it stopped and restarted''),
        (runningEphemeral [])\<lparr>calls := [(GetInstance ''c1'', None)]\<rparr>)"
proof -
  have h1: "calls (runningEphemeral []) = []" by (simp add: runningEphemeral_def)
  have h2: "\<not> flagForce (publishCmd False)" by (simp add: publishCmd_def)
  have h3: "instStatusCode (runningEphemeral []) \<noteq> 0"
    by (simp add: runningEphemeral_def Running_def)
  have h4: "instStatusCode (runningEphemeral []) \<noteq> Stopped"
    by (simp add: runningEphemeral_def Running_def Stopped_def)
  have h5: "(GetInstance ''c1'', None)
        \<in> set (calls (snd (Run (publishCmd False) localEnv [''c1''] (runningEphemeral []))))"
    by code_simp
  have t: "tl (outcomes (runningEphemeral [])) = []" by (simp add: runningEphemeral_def)
  show ?thesis
    using h1 h2 h3 h4 h5 Run_running_without_force [OF h1 h2 h3 h4 h5]
    by (simp add: runningEphemeral_def)
qed

theorem Run_ephemeral_flag_witness:
  "calls (runningEphemeral (replicate 9 None @ [Some (ErrorNew ''disk full'')])) = []
   \<and> instEphemeral (runningEphemeral (replicate 9 None @ [Some (ErrorNew ''disk full'')]))
   \<and> fst (Run (publishCmd True) localEnv [''c1'']
            (runningEphemeral (replicate 9 None @ [Some (ErrorNew ''disk full'')])))
       = Failure (ErrorNew ''disk full'')
   \<and> stop_succeeded (calls (snd (Run (publishCmd True) localEnv [''c1'']
            (runningEphemeral (replicate 9 None @ [Some (ErrorNew ''disk full'')])))))
   \<and> take 5 (calls (snd (Run (publishCmd True) localEnv [''c1'']
            (runningEphemeral (replicate 9 None @ [Some (ErrorNew ''disk full'')])))))
       = stop_log ''c1'' True
   \<and> (Wait (OpUpdateInstance True), None)
        \<in> set (calls (snd (Run (publishCmd True) localEnv [''c1'']
            (runningEphemeral (replicate 9 None @ [Some (ErrorNew ''disk full'')])))))
   \<and> instEphemeral (snd (Run (publishCmd True) localEnv [''c1'']
            (runningEphemeral (replicate 9 None @ [Some (ErrorNew ''disk full'')]))))"
proof -
  let ?w = "runningEphemeral (replicate 9 None @ [Some (ErrorNew ''disk full'')])"
  have run: "Run (publishCmd True) localEnv [''c1''] ?w =
     (Failure (ErrorNew ''disk full''),
      \<lparr>instStatusCode = Running, instEphemeral = True, targetAliases = [],
       opFingerprint = Some ''abc123'',
       calls = stop_log ''c1'' True
         @ [(GetInstance ''c1'', None), (UpdateInstance ''c1'' True, None),
            (Wait (OpUpdateInstance True), None),
            (GetCommonAliases [''web''], None),
            (CreateImage \<lparr>Source = \<lparr>Type = ''instance'', Name = ''c1''\<rparr>,
               CompressionAlgorithm = [], Properties = None, Public = False,
               ExpiresAt = None, Format = ''unified''\<rparr>, Some (ErrorNew ''disk full'')),
            (UpdateInstanceState ''c1'' startReq, None),
            (Wait (OpUpdateInstanceState startReq), None)],
       outcomes = []\<rparr>)"
    by code_simp
  have h1: "calls ?w = []" by (simp add: runningEphemeral_def)
  have h2: "instEphemeral ?w" by (simp add: runningEphemeral_def)
  have h4: "stop_succeeded (calls (snd (Run (publishCmd True) localEnv [''c1''] ?w)))"
    unfolding run by (simp add: stop_succeeded_def stop_log_def)
  from Run_ephemeral_flag [OF h1 h2 prod.collapse [symmetric] h4]
  obtain name es rest where
    c: "calls (snd (Run (publishCmd True) localEnv [''c1''] ?w)) = stop_log name True @ es @ rest"
    and la: "list_all (\<lambda>e. fst e \<noteq> Wait (OpUpdateInstance True)) rest"
    and i: "instEphemeral (snd (Run (publishCmd True) localEnv [''c1''] ?w))
              \<longleftrightarrow> (Wait (OpUpdateInstance True), None) \<in> set es"
    by blast
  have m: "(Wait (OpUpdateInstance True), None)
        \<in> set (calls (snd (Run (publishCmd True) localEnv [''c1''] ?w)))"
    unfolding run by simp
  have "(Wait (OpUpdateInstance True), None) \<in> set es"
    using m la unfolding c by (auto simp: stop_log_def list_all_iff)
  with i have e: "instEphemeral (snd (Run (publishCmd True) localEnv [''c1''] ?w))" by simp
  show ?thesis
    using h1 h2 h4 m e unfolding run by (simp add: stop_log_def)
qed

text \<open>
  C6 as stated fails: a running, ephemeral instance is stopped with \<open>--force\<close>, the read of
  the instance that starts the restoring fails, \<open>Run\<close> returns that error, the instance is
  restarted and its ephemeral flag is left cleared.
\<close>

theorem Run_ephemeral_flag_counterexample:
  "instEphemeral (runningEphemeral (replicate 5 None @ [Some (ErrorNew ''connection reset'')]))
   \<and> instStatusCode (runningEphemeral (replicate 5 None @ [Some (ErrorNew ''connection reset'')]))
       = Running
   \<and> flagForce (publishCmd True)
   \<and> Run (publishCmd True) localEnv [''c1'']
       (runningEphemeral (replicate 5 None @ [Some (ErrorNew ''connection reset'')]))
     = (Failure (ErrorNew ''connection reset''),
        \<lparr>instStatusCode = Running, instEphemeral = False, targetAliases = [],
         opFingerprint = Some ''abc123'',
         calls = [(GetInstance ''c1'', None), (UpdateInstance ''c1'' False, None),
                  (Wait (OpUpdateInstance False), None),
                  (UpdateInstanceState ''c1'' stopReq, None),
                  (Wait (OpUpdateInstanceState stopReq), None),
                  (GetInstance ''c1'', Some (ErrorNew ''connection reset'')),
                  (UpdateInstanceState ''c1'' startReq, None),
                  (Wait (OpUpdateInstanceState startReq), None)],
         outcomes = []\<rparr>)
   \<and> stop_succeeded (calls (snd (Run (publishCmd True) localEnv [''c1'']
       (runningEphemeral (replicate 5 None @ [Some (ErrorNew ''connection reset'')])))))
   \<and> \<not> instEphemeral (snd (Run (publishCmd True) localEnv [''c1'']
       (runningEphemeral (replicate 5 None @ [Some (ErrorNew ''connection reset'')]))))"
proof -
  let ?w = "runningEphemeral (replicate 5 None @ [Some (ErrorNew ''connection reset'')])"
  have run: "Run (publishCmd True) localEnv [''c1''] ?w
     = (Failure (ErrorNew ''connection reset''),
        \<lparr>instStatusCode = Running, instEphemeral = False, targetAliases = [],
         opFingerprint = Some ''abc123'',
         calls = [(GetInstance ''c1'', None), (UpdateInstance ''c1'' False, None),
                  (Wait (OpUpdateInstance False), None),
                  (UpdateInstanceState ''c1'' stopReq, None),
                  (Wait (OpUpdateInstanceState stopReq), None),
                  (GetInstance ''c1'', Some (ErrorNew ''connection reset'')),
                  (UpdateInstanceState ''c1'' startReq, None),
                  (Wait (OpUpdateInstanceState startReq), None)],
         outcomes = []\<rparr>)"
    by code_simp
  show ?thesis
    unfolding run
    by (simp add: runningEphemeral_def publishCmd_def stop_succeeded_def)
qed

end
